theory Spec2Isabelle
  imports Main
begin

text \<open>
  A model of the webhook receivers of the repository. The cart-update handler is the
  route file with \<^verbatim>\<open>hasHiddenProduct\<close> and \<^verbatim>\<open>addHiddenProductToCart\<close>; the
  order-update handler is \<^verbatim>\<open>src/app/api/webhook/order-update/route.ts\<close>, whose
  first document is the current version (begin, add variant, discount, commit). Both
  define \<^verbatim>\<open>hasTriggerProduct\<close> and \<^verbatim>\<open>POST\<close>; the model suffixes these names
  with \<open>_cart\<close> and \<open>_order\<close>. Logging is left out except where evaluating a log
  line can throw.
\<close>

section \<open>JavaScript values and the operations the handlers apply to them\<close>

text \<open>
  The webhook handlers work on values produced by \<^verbatim>\<open>JSON.parse\<close> and
  \<^verbatim>\<open>response.json()\<close>, and on \<^verbatim>\<open>undefined\<close>, which a missing property
  reads as. Numbers are the integers JavaScript prints in plain decimal notation
  (identifiers and counts); fractions and exponents are outside the model. A string is
  the list of its UTF-8 bytes, which is what \<^verbatim>\<open>Buffer.from\<close> compares. An object
  is the list of its own properties; \<^verbatim>\<open>map_of\<close> reads the first entry of a name.
\<close>

datatype jsval =
    JUndefined
  | JNull
  | JBool bool
  | JNum int
  | JStr string
  | JArr "jsval list"
  | JObj "(string \<times> jsval) list"

text \<open>
  What the code throws or lets propagate. \<open>Error\<close> carries the fixed part of the
  message of a \<^verbatim>\<open>throw new Error(...)\<close>; the interpolated status text and JSON
  are only logged. \<open>FetchFailed\<close> is a rejected \<^verbatim>\<open>fetch\<close> or a request body that
  cannot be read.
\<close>

datatype js_error = TypeError | RangeError | SyntaxError | FetchFailed | Error string

type_synonym 'a result = "js_error + 'a"

text \<open>Truthiness: \<^verbatim>\<open>!x\<close> is \<open>js_falsy x\<close>.\<close>

fun js_truthy :: "jsval \<Rightarrow> bool" where
  "js_truthy JUndefined = False"
| "js_truthy JNull = False"
| "js_truthy (JBool b) = b"
| "js_truthy (JNum n) = (n \<noteq> 0)"
| "js_truthy (JStr s) = (s \<noteq> [])"
| "js_truthy (JArr xs) = True"
| "js_truthy (JObj kvs) = True"

definition js_falsy :: "jsval \<Rightarrow> bool" where
  "js_falsy x = (if js_truthy x then False else True)"

fun js_nullish :: "jsval \<Rightarrow> bool" where
  "js_nullish JUndefined = True"
| "js_nullish JNull = True"
| "js_nullish _ = False"

text \<open>
  Reading a property of a value that is neither \<^verbatim>\<open>null\<close> nor \<^verbatim>\<open>undefined\<close>.
  The handlers read fixed, non-numeric names only, none of them a property of
  \<^verbatim>\<open>Object.prototype\<close>; \<^verbatim>\<open>length\<close> is the one inherited name they read, on arrays
  and strings (and only to compare it with 0).
\<close>

fun js_prop :: "jsval \<Rightarrow> string \<Rightarrow> jsval" where
  "js_prop (JObj kvs) p = (case map_of kvs p of None \<Rightarrow> JUndefined | Some v \<Rightarrow> v)"
| "js_prop (JArr xs) p = (if p = ''length'' then JNum (int (length xs)) else JUndefined)"
| "js_prop (JStr s) p = (if p = ''length'' then JNum (int (length s)) else JUndefined)"
| "js_prop _ p = JUndefined"

text \<open>\<^verbatim>\<open>x.p\<close> throws a TypeError on \<^verbatim>\<open>null\<close> and \<^verbatim>\<open>undefined\<close>; \<^verbatim>\<open>x?.p\<close> reads
  \<^verbatim>\<open>undefined\<close> there.\<close>

definition js_get :: "jsval \<Rightarrow> string \<Rightarrow> jsval result" where
  "js_get x p = (if js_nullish x then Inl TypeError else Inr (js_prop x p))"

definition js_opt :: "jsval \<Rightarrow> string \<Rightarrow> jsval" where
  "js_opt x p = (if js_nullish x then JUndefined else js_prop x p)"

fun isArray :: "jsval \<Rightarrow> bool" where
  "isArray (JArr xs) = True"
| "isArray _ = False"

fun elems :: "jsval \<Rightarrow> jsval list" where
  "elems (JArr xs) = xs"
| "elems _ = []"

fun is_number :: "jsval \<Rightarrow> bool" where
  "is_number (JNum n) = True"
| "is_number _ = False"

text \<open>Decimal notation of a natural number, most significant digit first.\<close>

definition digit_char :: "nat \<Rightarrow> char" where
  "digit_char d = ''0123456789'' ! d"

fun digits :: "nat \<Rightarrow> string" where
  "digits n =
     (if n < 10 then [digit_char n]
      else digits (n div 10) @ [digit_char (n mod 10)])"

definition decimal :: "int \<Rightarrow> string" where
  "decimal n = (if n < 0 then CHR ''-'' # digits (nat (- n)) else digits (nat n))"

text \<open>
  \<^verbatim>\<open>String(x)\<close>, which is also what a template literal \<^verbatim>\<open>`${x}`\<close> applies. An array
  joins its elements with commas, \<^verbatim>\<open>null\<close> and \<^verbatim>\<open>undefined\<close> elements as the empty
  string. A parsed object prints as \<^verbatim>\<open>[object Object]\<close> through the inherited
  \<^verbatim>\<open>toString\<close>; an own property \<^verbatim>\<open>toString\<close> (never callable in parsed JSON) makes
  the conversion throw a TypeError.
\<close>

fun js_String :: "jsval \<Rightarrow> string result"
  and js_join :: "jsval list \<Rightarrow> string result" where
  "js_String JUndefined = Inr ''undefined''"
| "js_String JNull = Inr ''null''"
| "js_String (JBool b) = Inr (if b then ''true'' else ''false'')"
| "js_String (JNum n) = Inr (decimal n)"
| "js_String (JStr s) = Inr s"
| "js_String (JArr xs) = js_join xs"
| "js_String (JObj kvs) =
     (if map_of kvs ''toString'' = None then Inr ''[object Object]'' else Inl TypeError)"
| "js_join [] = Inr []"
| "js_join (x # xs) =
     (case (if js_nullish x then Inr [] else js_String x) of
        Inl e \<Rightarrow> Inl e
      | Inr s \<Rightarrow>
          (if xs = [] then Inr s
           else (case js_join xs of Inl e \<Rightarrow> Inl e | Inr r \<Rightarrow> Inr (s @ '','' @ r))))"

text \<open>
  \<^verbatim>\<open>x > 0\<close>. A string operand is converted by ECMAScript's StringToNumber, which is
  not code of this repository: \<open>str_gt0 s\<close> stands for \<^verbatim>\<open>Number(s) > 0\<close>. An array
  is compared through its string; an object without an own \<^verbatim>\<open>toString\<close> converts
  to NaN.
\<close>

fun js_gt0 :: "(string \<Rightarrow> bool) \<Rightarrow> jsval \<Rightarrow> bool result" where
  "js_gt0 str_gt0 JUndefined = Inr False"
| "js_gt0 str_gt0 JNull = Inr False"
| "js_gt0 str_gt0 (JBool b) = Inr b"
| "js_gt0 str_gt0 (JNum n) = Inr (0 < n)"
| "js_gt0 str_gt0 (JStr s) = Inr (str_gt0 s)"
| "js_gt0 str_gt0 (JArr xs) =
     (case js_join xs of Inl e \<Rightarrow> Inl e | Inr s \<Rightarrow> Inr (str_gt0 s))"
| "js_gt0 str_gt0 (JObj kvs) =
     (if map_of kvs ''toString'' = None then Inr False else Inl TypeError)"

text \<open>\<^verbatim>\<open>xs.some(f)\<close>, and a \<^verbatim>\<open>for ... of\<close> loop that returns true at the first hit:
  both stop at the first element that matches or throws.\<close>

fun js_some :: "(jsval \<Rightarrow> bool result) \<Rightarrow> jsval list \<Rightarrow> bool result" where
  "js_some f [] = Inr False"
| "js_some f (x # xs) =
     (case f x of
        Inl e \<Rightarrow> Inl e
      | Inr b \<Rightarrow> if b then Inr True else js_some f xs)"

text \<open>\<^verbatim>\<open>s.split(',')\<close>: the empty string splits into one empty string.\<close>

fun split_comma :: "string \<Rightarrow> string list" where
  "split_comma [] = [[]]"
| "split_comma (ch # cs) =
     (if ch = CHR '','' then [] # split_comma cs
      else (case split_comma cs of
              [] \<Rightarrow> [[ch]]
            | w # ws \<Rightarrow> (ch # w) # ws))"

text \<open>\<^verbatim>\<open>/^\d+$/.test(s)\<close>: one or more ASCII digits and nothing else.\<close>

definition is_digits :: "string \<Rightarrow> bool" where
  "is_digits s = (s \<noteq> [] \<and> list_all (\<lambda>ch. ch \<in> set ''0123456789'') s)"

section \<open>Configuration and the outside world\<close>

text \<open>The module-level constants of the route files, read once from the environment.\<close>

record config =
  SHOPIFY_WEBHOOK_SECRET :: string
  HIDDEN_VARIANT_ID :: string
  OG_VARIANT_ID :: string
  TRIGGER_VARIANT_IDS :: "string list"
  SHOPIFY_STOREFRONT_ACCESS_TOKEN :: string
  SHOPIFY_ADMIN_API_KEY :: string
  SHOPIFY_STORE_DOMAIN :: string
  BYPASS_WEBHOOK_VERIFICATION :: bool

text \<open>\<^verbatim>\<open>process.env.X || ''\<close>.\<close>

definition env_or_empty :: "(string \<Rightarrow> string option) \<Rightarrow> string \<Rightarrow> string" where
  "env_or_empty env x = (case env x of None \<Rightarrow> [] | Some v \<Rightarrow> v)"

definition load_config :: "(string \<Rightarrow> string option) \<Rightarrow> config" where
  "load_config env =
     \<lparr> SHOPIFY_WEBHOOK_SECRET = env_or_empty env ''SHOPIFY_WEBHOOK_SECRET'',
       HIDDEN_VARIANT_ID = env_or_empty env ''HIDDEN_VARIANT_ID'',
       OG_VARIANT_ID = env_or_empty env ''OG_VARIANT_ID'',
       TRIGGER_VARIANT_IDS = split_comma (env_or_empty env ''TRIGGER_VARIANT_IDS''),
       SHOPIFY_STOREFRONT_ACCESS_TOKEN = env_or_empty env ''SHOPIFY_STOREFRONT_ACCESS_TOKEN'',
       SHOPIFY_ADMIN_API_KEY = env_or_empty env ''SHOPIFY_ADMIN_API_KEY'',
       SHOPIFY_STORE_DOMAIN = env_or_empty env ''SHOPIFY_STORE_DOMAIN'',
       BYPASS_WEBHOOK_VERIFICATION = (env ''BYPASS_WEBHOOK_VERIFICATION'' = Some ''true'') \<rparr>"

text \<open>
  An outbound GraphQL call. The mutation text of the source is fixed up to the values
  interpolated into it (or passed as variables), which are the arguments here.
\<close>

datatype gql_call =
    CartLinesAdd jsval string nat
  | OrderEditBegin string
  | OrderEditAddVariant string string nat
  | OrderEditAddLineItemDiscount string nat string string
  | OrderEditCommit string bool string

record request =
  req_url :: string
  req_token_header :: "string \<times> string"
  req_call :: gql_call

text \<open>
  What \<^verbatim>\<open>await fetch(...)\<close> gives: a rejection, or a response with its status and
  what \<^verbatim>\<open>response.json()\<close> resolves to (\<open>None\<close> when the body is not JSON).
\<close>

datatype fetch_result = Rejected | Response nat "jsval option"

text \<open>
  Everything the handlers call that is not code of the repository: the keyed hash
  \<^verbatim>\<open>crypto.createHmac('sha256', key).update(body).digest('base64')\<close>, \<^verbatim>\<open>JSON.parse\<close>
  (\<open>None\<close> for a SyntaxError), the numeric reading of a string, and the remote API,
  which answers a request knowing the requests issued before it.
\<close>

record world =
  hmac_sha256_base64 :: "string \<Rightarrow> string \<Rightarrow> string"
  JSON_parse :: "string \<Rightarrow> jsval option"
  number_gt0 :: "string \<Rightarrow> bool"
  fetch :: "request list \<Rightarrow> request \<Rightarrow> fetch_result"

section \<open>Signature verification\<close>

text \<open>\<^verbatim>\<open>crypto.timingSafeEqual\<close> throws a RangeError when the byte lengths differ.\<close>

definition timingSafeEqual :: "string \<Rightarrow> string \<Rightarrow> bool result" where
  "timingSafeEqual a b = (if length a = length b then Inr (a = b) else Inl RangeError)"

definition verifyShopifyWebhook ::
  "world \<Rightarrow> config \<Rightarrow> string \<Rightarrow> string option \<Rightarrow> bool result" where
  "verifyShopifyWebhook w c body hmacHeader =
     (if BYPASS_WEBHOOK_VERIFICATION c then Inr True
      else (case hmacHeader of
              None \<Rightarrow> Inr False
            | Some h \<Rightarrow>
                if SHOPIFY_WEBHOOK_SECRET c = [] \<or> h = [] then Inr False
                else timingSafeEqual
                       (hmac_sha256_base64 w (SHOPIFY_WEBHOOK_SECRET c) body) h))"

section \<open>Effects: the trace of outbound requests\<close>

text \<open>
  A computation that may issue requests takes the requests issued so far and returns
  its value or the error it throws, with the requests issued by then. \<open>io_catch\<close>
  is \<^verbatim>\<open>try { ... } catch (error) { ... }\<close>; \<open>rbind\<close> sequences computations that
  issue nothing.
\<close>

type_synonym 'a io = "request list \<Rightarrow> 'a result \<times> request list"

definition rbind :: "'a result \<Rightarrow> ('a \<Rightarrow> 'b result) \<Rightarrow> 'b result" where
  "rbind r f = (case r of Inl e \<Rightarrow> Inl e | Inr x \<Rightarrow> f x)"

definition io_return :: "'a \<Rightarrow> 'a io" where
  "io_return x = (\<lambda>t. (Inr x, t))"

definition io_throw :: "js_error \<Rightarrow> 'a io" where
  "io_throw e = (\<lambda>t. (Inl e, t))"

definition io_lift :: "'a result \<Rightarrow> 'a io" where
  "io_lift r = (\<lambda>t. (r, t))"

definition io_bind :: "'a io \<Rightarrow> ('a \<Rightarrow> 'b io) \<Rightarrow> 'b io" where
  "io_bind m f = (\<lambda>t. case m t of (Inl e, t') \<Rightarrow> (Inl e, t') | (Inr x, t') \<Rightarrow> f x t')"

definition io_catch :: "'a io \<Rightarrow> (js_error \<Rightarrow> 'a io) \<Rightarrow> 'a io" where
  "io_catch m h = (\<lambda>t. case m t of (Inl e, t') \<Rightarrow> h e t' | (Inr x, t') \<Rightarrow> (Inr x, t'))"

text \<open>
  The pattern each call site repeats: \<^verbatim>\<open>fetch\<close>, throw unless \<^verbatim>\<open>response.ok\<close>
  (a status from 200 to 299), then \<^verbatim>\<open>await response.json()\<close>.
\<close>

definition graphql_post :: "world \<Rightarrow> request \<Rightarrow> jsval io" where
  "graphql_post w r =
     (\<lambda>t. case fetch w t r of
            Rejected \<Rightarrow> (Inl FetchFailed, t @ [r])
          | Response st js \<Rightarrow>
              if 200 \<le> st \<and> st < 300
              then (case js of
                      None \<Rightarrow> (Inl SyntaxError, t @ [r])
                    | Some v \<Rightarrow> (Inr v, t @ [r]))
              else (Inl (Error ''HTTP error!''), t @ [r]))"

text \<open>The JSON responses of the handlers: a status and a body.\<close>

datatype details = NoDetails | DetailsValue jsval | DetailsError js_error

datatype json_body = ErrorBody string details | SuccessBody string

record http_response =
  resp_status :: nat
  resp_body :: json_body

text \<open>An incoming webhook: what \<^verbatim>\<open>request.text()\<close> resolves to (\<open>None\<close> when the
  body cannot be read) and the \<^verbatim>\<open>x-shopify-hmac-sha256\<close> header.\<close>

record webhook_request =
  request_text :: "string option"
  hmac_header :: "string option"

text \<open>\<^verbatim>\<open>String(item.p)\<close>.\<close>

definition string_of_prop :: "jsval \<Rightarrow> string \<Rightarrow> string result" where
  "string_of_prop item p = rbind (js_get item p) js_String"

section \<open>The cart-update handler\<close>

definition hasTriggerProduct_cart :: "config \<Rightarrow> jsval \<Rightarrow> bool result" where
  "hasTriggerProduct_cart c cart =
     (let items = js_opt cart ''items'' in
      if js_falsy items \<or> \<not> isArray items \<or> length (TRIGGER_VARIANT_IDS c) = 0
      then Inr False
      else js_some
             (\<lambda>item. rbind (string_of_prop item ''variant_id'')
                        (\<lambda>s. Inr (s \<in> set (TRIGGER_VARIANT_IDS c))))
             (elems items))"

definition hasHiddenProduct :: "config \<Rightarrow> jsval \<Rightarrow> bool result" where
  "hasHiddenProduct c cart =
     (let items = js_opt cart ''items'' in
      if js_falsy items \<or> \<not> isArray items \<or> HIDDEN_VARIANT_ID c = []
      then Inr False
      else js_some
             (\<lambda>item. rbind (string_of_prop item ''variant_id'')
                        (\<lambda>s. Inr (s = HIDDEN_VARIANT_ID c)))
             (elems items))"

definition storefront_request :: "config \<Rightarrow> gql_call \<Rightarrow> request" where
  "storefront_request c q =
     \<lparr> req_url = ''https://'' @ SHOPIFY_STORE_DOMAIN c @ ''/api/2024-04/graphql.json'',
       req_token_header =
         (''X-Shopify-Storefront-Access-Token'', SHOPIFY_STOREFRONT_ACCESS_TOKEN c),
       req_call = q \<rparr>"

definition addHiddenProductToCart :: "world \<Rightarrow> config \<Rightarrow> jsval \<Rightarrow> jsval io" where
  "addHiddenProductToCart w c cartId =
     (if SHOPIFY_STOREFRONT_ACCESS_TOKEN c = [] \<or> HIDDEN_VARIANT_ID c = []
      then io_return JNull
      else io_catch
             (graphql_post w
                (storefront_request c
                   (CartLinesAdd cartId
                      (''gid://shopify/ProductVariant/'' @ HIDDEN_VARIANT_ID c) 1)))
             (\<lambda>error. io_return JNull))"

text \<open>\<^verbatim>\<open>hasTriggerProduct(cart) && !hasHiddenProduct(cart)\<close>.\<close>

definition cart_condition :: "config \<Rightarrow> jsval \<Rightarrow> bool result" where
  "cart_condition c cart =
     rbind (hasTriggerProduct_cart c cart)
       (\<lambda>trig. if trig then rbind (hasHiddenProduct c cart) (\<lambda>hid. Inr (\<not> hid))
                else Inr False)"

text \<open>\<^verbatim>\<open>cart.id || cart.token\<close>.\<close>

definition cart_id :: "jsval \<Rightarrow> jsval result" where
  "cart_id cart =
     rbind (js_get cart ''id'')
       (\<lambda>i. if js_truthy i then Inr i else js_get cart ''token'')"

text \<open>\<^verbatim>\<open>result.data.cartLinesAdd.userErrors\<close>, read under the guards of the test
  \<^verbatim>\<open>result && result.data && result.data.cartLinesAdd && ...\<close>.\<close>

definition cart_userErrors :: "jsval \<Rightarrow> jsval" where
  "cart_userErrors result = js_prop (js_prop (js_prop result ''data'') ''cartLinesAdd'') ''userErrors''"

definition cart_add_failed :: "world \<Rightarrow> jsval \<Rightarrow> bool result" where
  "cart_add_failed w result =
     (if js_truthy result \<and> js_truthy (js_prop result ''data'')
         \<and> js_truthy (js_prop (js_prop result ''data'') ''cartLinesAdd'')
         \<and> js_truthy (cart_userErrors result)
      then js_gt0 (number_gt0 w) (js_prop (cart_userErrors result) ''length'')
      else Inr False)"

definition read_text :: "webhook_request \<Rightarrow> string result" where
  "read_text rq = (case request_text rq of None \<Rightarrow> Inl FetchFailed | Some b \<Rightarrow> Inr b)"

definition parse_json :: "world \<Rightarrow> string \<Rightarrow> jsval result" where
  "parse_json w s = (case JSON_parse w s of None \<Rightarrow> Inl SyntaxError | Some v \<Rightarrow> Inr v)"

definition respond :: "nat \<Rightarrow> json_body \<Rightarrow> http_response io" where
  "respond st b = io_return \<lparr> resp_status = st, resp_body = b \<rparr>"

text \<open>The body of the \<^verbatim>\<open>try\<close> block of the cart-update \<^verbatim>\<open>POST\<close>.\<close>

definition POST_cart_try :: "world \<Rightarrow> config \<Rightarrow> webhook_request \<Rightarrow> http_response io" where
  "POST_cart_try w c rq =
     io_bind (io_lift (read_text rq)) (\<lambda>rawBody.
     io_bind (io_lift (verifyShopifyWebhook w c rawBody (hmac_header rq))) (\<lambda>isVerified.
       if \<not> isVerified
       then respond 401 (ErrorBody ''Invalid webhook signature'' NoDetails)
       else
         io_bind (io_lift (parse_json w rawBody)) (\<lambda>cart.
         io_bind (io_lift (cart_condition c cart)) (\<lambda>cond.
           if cond
           then
             io_bind (io_lift (cart_id cart)) (\<lambda>cartId.
               if js_falsy cartId
               then respond 400 (ErrorBody ''Missing cart ID'' NoDetails)
               else
                 io_bind (addHiddenProductToCart w c cartId) (\<lambda>result.
                 io_bind (io_lift (cart_add_failed w result)) (\<lambda>failed.
                   if failed
                   then respond 500
                          (ErrorBody ''Failed to add product''
                             (DetailsValue (cart_userErrors result)))
                   else respond 200 (SuccessBody ''Hidden product added to cart''))))
           else respond 200 (SuccessBody ''Webhook received'')))))"

definition POST_cart :: "world \<Rightarrow> config \<Rightarrow> webhook_request \<Rightarrow> http_response io" where
  "POST_cart w c rq =
     io_catch (POST_cart_try w c rq)
       (\<lambda>error. respond 500 (ErrorBody ''Error processing webhook'' (DetailsError error)))"

section \<open>The order-update handler\<close>

text \<open>
  The current \<^verbatim>\<open>route.ts\<close> of the order-update webhook (the first document of the
  file). The loops log each item before testing it; what a log line interpolates is
  read and converted by the test as well, so logging adds no outcome of its own
  inside the predicates.
\<close>

text \<open>\<^verbatim>\<open>item.p && String(item.p) === target\<close>, as a boolean.\<close>

definition prop_matches :: "jsval \<Rightarrow> string \<Rightarrow> (string \<Rightarrow> bool) \<Rightarrow> bool result" where
  "prop_matches item p test =
     rbind (js_get item p)
       (\<lambda>v. if js_truthy v then rbind (js_String v) (\<lambda>s. Inr (test s)) else Inr False)"

definition hasTriggerProduct_order :: "config \<Rightarrow> jsval \<Rightarrow> bool result" where
  "hasTriggerProduct_order c order =
     rbind (js_get order ''line_items'')
       (\<lambda>items.
          if js_falsy items \<or> \<not> isArray items \<or> length (TRIGGER_VARIANT_IDS c) = 0
          then Inr False
          else js_some
                 (\<lambda>item. prop_matches item ''product_id''
                            (\<lambda>s. s \<in> set (TRIGGER_VARIANT_IDS c)))
                 (elems items))"

definition hasOGPack :: "config \<Rightarrow> jsval \<Rightarrow> bool result" where
  "hasOGPack c order =
     rbind (js_get order ''line_items'')
       (\<lambda>items.
          if js_falsy items \<or> \<not> isArray items \<or> OG_VARIANT_ID c = []
          then Inr False
          else js_some
                 (\<lambda>item.
                    rbind (prop_matches item ''product_id'' (\<lambda>s. s = OG_VARIANT_ID c))
                      (\<lambda>byProduct.
                         if byProduct then Inr True
                         else prop_matches item ''variant_id'' (\<lambda>s. s = OG_VARIANT_ID c)))
                 (elems items))"

text \<open>The older \<^verbatim>\<open>hasOGPack\<close> kept in the second document of \<^verbatim>\<open>route.ts\<close>: it
  compares the product identifier only, without a truthiness guard.\<close>

definition hasOGPack_legacy :: "config \<Rightarrow> jsval \<Rightarrow> bool result" where
  "hasOGPack_legacy c order =
     rbind (js_get order ''line_items'')
       (\<lambda>items.
          if js_falsy items \<or> \<not> isArray items \<or> OG_VARIANT_ID c = []
          then Inr False
          else js_some
                 (\<lambda>item. rbind (string_of_prop item ''product_id'')
                            (\<lambda>s. Inr (s = OG_VARIANT_ID c)))
                 (elems items))"

definition admin_request :: "config \<Rightarrow> gql_call \<Rightarrow> request" where
  "admin_request c q =
     \<lparr> req_url = ''https://'' @ SHOPIFY_STORE_DOMAIN c @ ''/admin/api/2024-04/graphql.json'',
       req_token_header = (''X-Shopify-Access-Token'', SHOPIFY_ADMIN_API_KEY c),
       req_call = q \<rparr>"

text \<open>
  \<^verbatim>\<open>typeof orderId === 'number' || /^\d+$/.test(String(orderId))
    ? `gid://shopify/Order/${orderId}` : orderId\<close>
\<close>

definition orderGid_of :: "jsval \<Rightarrow> jsval result" where
  "orderGid_of orderId =
     rbind (js_String orderId)
       (\<lambda>s. if is_number orderId \<or> is_digits s
             then Inr (JStr (''gid://shopify/Order/'' @ s))
             else Inr orderId)"

text \<open>
  \<^verbatim>\<open>result.errors || (result.data?.op?.userErrors && result.data.op.userErrors.length > 0)\<close>
  as a boolean, for the mutation named \<open>op\<close>.
\<close>

definition api_errors :: "world \<Rightarrow> string \<Rightarrow> jsval \<Rightarrow> bool result" where
  "api_errors w op r =
     rbind (js_get r ''errors'')
       (\<lambda>errs.
          if js_truthy errs then Inr True
          else (let ue = js_opt (js_opt (js_prop r ''data'') op) ''userErrors'' in
                if js_truthy ue then js_gt0 (number_gt0 w) (js_prop ue ''length'')
                else Inr False))"

definition throw_if_api_errors :: "world \<Rightarrow> string \<Rightarrow> string \<Rightarrow> jsval \<Rightarrow> unit result" where
  "throw_if_api_errors w op msg r =
     rbind (api_errors w op r) (\<lambda>bad. if bad then Inl (Error msg) else Inr ())"

text \<open>\<^verbatim>\<open>result.data?.op?.field?.id\<close>, which must be truthy; it is then interpolated
  into the next mutation.\<close>

definition returned_id :: "string \<Rightarrow> string \<Rightarrow> jsval \<Rightarrow> jsval" where
  "returned_id op field r = js_opt (js_opt (js_opt (js_prop r ''data'') op) field) ''id''"

definition require_id :: "string \<Rightarrow> string \<Rightarrow> string \<Rightarrow> jsval \<Rightarrow> string result" where
  "require_id op field msg r =
     (if js_falsy (returned_id op field r) then Inl (Error msg)
      else js_String (returned_id op field r))"

definition variantGid :: "config \<Rightarrow> string" where
  "variantGid c =
     (if take 29 (OG_VARIANT_ID c) = ''gid://shopify/ProductVariant/'' then OG_VARIANT_ID c
      else ''gid://shopify/ProductVariant/'' @ OG_VARIANT_ID c)"

text \<open>The body of the \<^verbatim>\<open>try\<close> block of \<^verbatim>\<open>addFreeItemToOrder\<close>: begin, add variant,
  discount, commit.\<close>

definition order_edit :: "world \<Rightarrow> config \<Rightarrow> jsval \<Rightarrow> jsval io" where
  "order_edit w c orderGid =
     io_bind (io_lift (js_String orderGid)) (\<lambda>gid.
     io_bind (graphql_post w (admin_request c (OrderEditBegin gid))) (\<lambda>beginEditResult.
     io_bind (io_lift (throw_if_api_errors w ''orderEditBegin''
                ''Error beginning order edit'' beginEditResult)) (\<lambda>_.
     io_bind (io_lift (require_id ''orderEditBegin'' ''calculatedOrder''
                ''No calculatedOrder ID returned from orderEditBegin mutation''
                beginEditResult)) (\<lambda>calculatedOrderId.
     io_bind (graphql_post w
                (admin_request c
                   (OrderEditAddVariant calculatedOrderId (variantGid c) 1))) (\<lambda>addVariantResult.
     io_bind (io_lift (throw_if_api_errors w ''orderEditAddVariant''
                ''Error adding variant to order'' addVariantResult)) (\<lambda>_.
     io_bind (io_lift (require_id ''orderEditAddVariant'' ''calculatedLineItem''
                ''No calculatedLineItem ID returned from orderEditAddVariant mutation''
                addVariantResult)) (\<lambda>lineItemId.
     io_bind (graphql_post w
                (admin_request c
                   (OrderEditAddLineItemDiscount ''Free promotional item'' 100
                      calculatedOrderId lineItemId))) (\<lambda>addDiscountResult.
     io_bind (io_lift (throw_if_api_errors w ''orderEditAddLineItemDiscount''
                ''Error adding discount to line item'' addDiscountResult)) (\<lambda>_.
     io_bind (graphql_post w
                (admin_request c
                   (OrderEditCommit calculatedOrderId False
                      ''Added free promotional item''))) (\<lambda>commitResult.
     io_bind (io_lift (throw_if_api_errors w ''orderEditCommit''
                ''Error committing order edit'' commitResult)) (\<lambda>_.
     io_return commitResult)))))))))))"

definition addFreeItemToOrder :: "world \<Rightarrow> config \<Rightarrow> jsval \<Rightarrow> jsval io" where
  "addFreeItemToOrder w c orderId =
     (if SHOPIFY_ADMIN_API_KEY c = [] \<or> OG_VARIANT_ID c = []
      then io_return JNull
      else io_bind (io_lift (orderGid_of orderId)) (\<lambda>orderGid.
             io_catch (order_edit w c orderGid) (\<lambda>error. io_return JNull)))"

text \<open>The log lines of \<^verbatim>\<open>POST\<close> that can throw: \<^verbatim>\<open>order.order_number\<close> on a
  \<^verbatim>\<open>null\<close> payload, \<^verbatim>\<open>forEach\<close> on line items that are not an array, and the
  template literal over each item.\<close>

fun log_items :: "jsval list \<Rightarrow> unit result" where
  "log_items [] = Inr ()"
| "log_items (item # rest) =
     rbind (string_of_prop item ''product_id'') (\<lambda>_.
     rbind (string_of_prop item ''variant_id'') (\<lambda>_.
     rbind (string_of_prop item ''quantity'') (\<lambda>_.
     log_items rest)))"

definition log_order :: "jsval \<Rightarrow> unit result" where
  "log_order order =
     rbind (js_get order ''order_number'') (\<lambda>_.
     rbind (js_get order ''line_items'') (\<lambda>items.
       if js_truthy items
       then (if isArray items then log_items (elems items) else Inl TypeError)
       else Inr ()))"

text \<open>\<^verbatim>\<open>hasTriggerProduct(order) && !hasOGPack(order)\<close>.\<close>

definition order_condition :: "config \<Rightarrow> jsval \<Rightarrow> bool result" where
  "order_condition c order =
     rbind (hasTriggerProduct_order c order)
       (\<lambda>trig. if trig then rbind (hasOGPack c order) (\<lambda>og. Inr (\<not> og))
                else Inr False)"

text \<open>\<^verbatim>\<open>order.id || order.admin_graphql_api_id\<close>.\<close>

definition order_id :: "jsval \<Rightarrow> jsval result" where
  "order_id order =
     rbind (js_get order ''id'')
       (\<lambda>i. if js_truthy i then Inr i else js_get order ''admin_graphql_api_id'')"

text \<open>\<^verbatim>\<open>result?.errors || 'Unknown error'\<close>.\<close>

definition error_details :: "jsval \<Rightarrow> jsval" where
  "error_details result =
     (if js_truthy (js_opt result ''errors'') then js_opt result ''errors''
      else JStr ''Unknown error'')"

definition POST_order_try :: "world \<Rightarrow> config \<Rightarrow> webhook_request \<Rightarrow> http_response io" where
  "POST_order_try w c rq =
     io_bind (io_lift (read_text rq)) (\<lambda>rawBody.
     io_bind (io_lift (verifyShopifyWebhook w c rawBody (hmac_header rq))) (\<lambda>isVerified.
       if \<not> isVerified
       then respond 401 (ErrorBody ''Invalid webhook signature'' NoDetails)
       else
         io_bind (io_lift (parse_json w rawBody)) (\<lambda>order.
         io_bind (io_lift (log_order order)) (\<lambda>_.
         io_bind (io_lift (order_condition c order)) (\<lambda>cond.
           if cond
           then
             io_bind (io_lift (order_id order)) (\<lambda>orderId.
               if js_falsy orderId
               then respond 400 (ErrorBody ''Missing order ID'' NoDetails)
               else
                 io_bind (io_lift (js_String orderId)) (\<lambda>_.
                 io_bind (addFreeItemToOrder w c orderId) (\<lambda>result.
                   if js_falsy result \<or> js_truthy (js_prop result ''errors'')
                   then respond 500
                          (ErrorBody ''Failed to add free item to order''
                             (DetailsValue (error_details result)))
                   else respond 200 (SuccessBody ''Free item added to order''))))
           else
             io_bind (io_lift (hasTriggerProduct_order c order)) (\<lambda>_.
             io_bind (io_lift (hasOGPack c order)) (\<lambda>_.
               respond 200 (SuccessBody ''Webhook received''))))))))"

definition POST_order :: "world \<Rightarrow> config \<Rightarrow> webhook_request \<Rightarrow> http_response io" where
  "POST_order w c rq =
     io_catch (POST_order_try w c rq)
       (\<lambda>error. respond 500 (ErrorBody ''Error processing webhook'' (DetailsError error)))"

section \<open>The order identifier in the test endpoint\<close>

text \<open>
  The test route keeps a variant of \<^verbatim>\<open>addFreeItemToOrder\<close> that takes the whole
  order. It uses \<^verbatim>\<open>admin_graphql_api_id\<close> when that starts with \<^verbatim>\<open>gid://\<close>, builds
  the identifier from a truthy \<^verbatim>\<open>id\<close> otherwise, and throws when neither gives
  one. (\<^verbatim>\<open>startsWith\<close> exists on strings only.)
\<close>

definition orderGid_of_order :: "jsval \<Rightarrow> jsval result" where
  "orderGid_of_order order =
     rbind (js_get order ''admin_graphql_api_id'') (\<lambda>adminId.
     rbind (if js_falsy adminId then Inr True
            else (case adminId of
                    JStr s \<Rightarrow> Inr (take 6 s \<noteq> ''gid://'')
                  | _ \<Rightarrow> Inl TypeError)) (\<lambda>rebuild.
     rbind (if rebuild
            then rbind (js_get order ''id'') (\<lambda>numericId.
                   if js_truthy numericId
                   then rbind (js_String numericId)
                          (\<lambda>s. Inr (JStr (''gid://shopify/Order/'' @ s)))
                   else Inr adminId)
            else Inr adminId) (\<lambda>orderGid.
     if js_falsy orderGid then Inl (Error ''Unable to determine order GID'')
     else Inr orderGid)))"

section \<open>Vocabulary of the properties\<close>

text \<open>The signature the verifier expects for a body, and the one request the cart
  mutation issues.\<close>

abbreviation expected_signature :: "world \<Rightarrow> config \<Rightarrow> string \<Rightarrow> string" where
  "expected_signature w c body \<equiv> hmac_sha256_base64 w (SHOPIFY_WEBHOOK_SECRET c) body"

abbreviation cart_lines_add_request :: "config \<Rightarrow> jsval \<Rightarrow> request" where
  "cart_lines_add_request c cartId \<equiv>
     storefront_request c
       (CartLinesAdd cartId (''gid://shopify/ProductVariant/'' @ HIDDEN_VARIANT_ID c) 1)"

abbreviation begin_request :: "config \<Rightarrow> string \<Rightarrow> request" where
  "begin_request c gid \<equiv> admin_request c (OrderEditBegin gid)"

text \<open>A computation only ever appends to the trace of requests.\<close>

definition io_extends :: "'a io \<Rightarrow> bool" where
  "io_extends m = (\<forall>t. \<exists>ext. snd (m t) = t @ ext)"

text \<open>A handler body that, when it returns a response, returns one of the four
  documented statuses.\<close>

definition documented_status :: "nat \<Rightarrow> bool" where
  "documented_status st = (st = 200 \<or> st = 400 \<or> st = 401 \<or> st = 500)"

definition responds_documented :: "http_response io \<Rightarrow> bool" where
  "responds_documented m =
     (\<forall>t r t'. m t = (Inr r, t') \<longrightarrow> documented_status (resp_status r))"

text \<open>
  How a begin call fails at the application level: the response carries top-level
  \<^verbatim>\<open>errors\<close> or a non-empty \<^verbatim>\<open>userErrors\<close> list, or it carries no
  \<^verbatim>\<open>calculatedOrder.id\<close> (the session token).
\<close>

fun nonempty_array :: "jsval \<Rightarrow> bool" where
  "nonempty_array (JArr (x # xs)) = True"
| "nonempty_array _ = False"

definition begin_reports_errors :: "jsval \<Rightarrow> bool" where
  "begin_reports_errors r =
     (js_truthy (js_prop r ''errors'') \<or>
      nonempty_array (js_opt (js_opt (js_prop r ''data'') ''orderEditBegin'') ''userErrors''))"

definition begin_omits_token :: "jsval \<Rightarrow> bool" where
  "begin_omits_token r = js_falsy (returned_id ''orderEditBegin'' ''calculatedOrder'' r)"

text \<open>
  Line items as the \<^verbatim>\<open>LineItem\<close> interface declares them: an object whose
  \<^verbatim>\<open>product_id\<close> and \<^verbatim>\<open>variant_id\<close> are strings or numbers, or absent
  (\<^verbatim>\<open>undefined\<close> or \<^verbatim>\<open>null\<close>).
\<close>

fun is_identifier :: "jsval \<Rightarrow> bool" where
  "is_identifier (JStr s) = True"
| "is_identifier (JNum n) = True"
| "is_identifier JUndefined = True"
| "is_identifier JNull = True"
| "is_identifier _ = False"

definition line_item_ok :: "jsval \<Rightarrow> bool" where
  "line_item_ok item =
     (js_nullish item = False \<and> is_identifier (js_prop item ''product_id'')
      \<and> is_identifier (js_prop item ''variant_id''))"

text \<open>The presence predicate in the words of the specification: some line item's
  variant-level or product-level identifier is present and, read as a string, equals
  the target.\<close>

definition identifier_equals :: "jsval \<Rightarrow> string \<Rightarrow> bool" where
  "identifier_equals v target = (js_nullish v = False \<and> js_String v = Inr target)"

definition spec_has_target :: "string \<Rightarrow> jsval list \<Rightarrow> bool" where
  "spec_has_target target items =
     list_ex (\<lambda>item. identifier_equals (js_prop item ''variant_id'') target
                    \<or> identifier_equals (js_prop item ''product_id'') target) items"

text \<open>What the code tests: the identifier is truthy and its string equals the target.\<close>

definition truthy_equals :: "jsval \<Rightarrow> string \<Rightarrow> bool" where
  "truthy_equals v target = (js_truthy v \<and> js_String v = Inr target)"

section \<open>A concrete deployment\<close>

text \<open>
  An environment, two webhook bodies with what \<^verbatim>\<open>JSON.parse\<close> makes of them, and
  their HMAC-SHA256 signatures under the secret \<^verbatim>\<open>s3cret\<close> (computed with a
  reference implementation). The hash and the parser are given on these texts only;
  elsewhere they return a placeholder of the right shape.
\<close>

definition demo_env :: "string \<Rightarrow> string option" where
  "demo_env =
     [''SHOPIFY_WEBHOOK_SECRET'' \<mapsto> ''s3cret'',
      ''HIDDEN_VARIANT_ID'' \<mapsto> ''H1'',
      ''OG_VARIANT_ID'' \<mapsto> ''OG1'',
      ''TRIGGER_VARIANT_IDS'' \<mapsto> ''T1,P1'',
      ''SHOPIFY_STOREFRONT_ACCESS_TOKEN'' \<mapsto> ''sf-token'',
      ''SHOPIFY_ADMIN_API_KEY'' \<mapsto> ''admin-token'',
      ''SHOPIFY_STORE_DOMAIN'' \<mapsto> ''shop.example'']"

definition demo_config :: config where
  "demo_config = load_config demo_env"

definition cart_text :: string where
  \<open>cart_text = ''{"id":"c1","items":[{"variant_id":"T1","quantity":1}]}''\<close>

definition cart_value :: jsval where
  "cart_value =
     JObj [(''id'', JStr ''c1''),
           (''items'', JArr [JObj [(''variant_id'', JStr ''T1''), (''quantity'', JNum 1)]])]"

definition cart_signature :: string where
  "cart_signature = ''XCylLMEGhj1h7RpL217cQ4sON+2Q4ZDKk0mopcHjuEg=''"

text \<open>The same cart with one byte of the body changed (\<^verbatim>\<open>c1\<close> to \<^verbatim>\<open>c2\<close>).\<close>

definition cart_text_mutated :: string where
  \<open>cart_text_mutated = ''{"id":"c2","items":[{"variant_id":"T1","quantity":1}]}''\<close>

definition cart_signature_mutated :: string where
  "cart_signature_mutated = ''0iwkfrvWiFIRPO49kqEqnCv+IzdPyIPzC0Jpx6zLatU=''"

definition order_text :: string where
  \<open>order_text =
     ''{"id":7,"line_items":[{"variant_id":11,"product_id":"P1","quantity":1}]}''\<close>

definition order_value :: jsval where
  "order_value =
     JObj [(''id'', JNum 7),
           (''line_items'',
            JArr [JObj [(''variant_id'', JNum 11), (''product_id'', JStr ''P1''),
                        (''quantity'', JNum 1)]])]"

definition order_signature :: string where
  "order_signature = ''hxI2VEkKrpAZGyd00pNVRABgqHoF+Mq9UpUHZHYdn9k=''"

definition demo_hmac :: "string \<Rightarrow> string \<Rightarrow> string" where
  "demo_hmac key text =
     (if key = ''s3cret'' \<and> text = cart_text then cart_signature
      else if key = ''s3cret'' \<and> text = cart_text_mutated then cart_signature_mutated
      else if key = ''s3cret'' \<and> text = order_text then order_signature
      else replicate 44 (CHR ''A''))"

definition demo_parse :: "string \<Rightarrow> jsval option" where
  "demo_parse text =
     (if text = cart_text then Some cart_value
      else if text = order_text then Some order_value
      else None)"

definition demo_world :: "(request list \<Rightarrow> request \<Rightarrow> fetch_result) \<Rightarrow> world" where
  "demo_world api =
     \<lparr> hmac_sha256_base64 = demo_hmac,
       JSON_parse = demo_parse,
       number_gt0 = (\<lambda>s. is_digits s \<and> list_ex (\<lambda>ch. ch \<noteq> CHR ''0'') s),
       fetch = api \<rparr>"

text \<open>Remote behaviours: the API is unreachable; the storefront API answers 200 with
  a user error; the admin API answers the begin call with a user error; the admin API
  answers the begin call without a calculated order.\<close>

definition api_unreachable :: "request list \<Rightarrow> request \<Rightarrow> fetch_result" where
  "api_unreachable hist r = Rejected"

definition cart_user_error_response :: jsval where
  "cart_user_error_response =
     JObj [(''data'',
            JObj [(''cartLinesAdd'',
                   JObj [(''cart'', JNull),
                         (''userErrors'',
                          JArr [JObj [(''field'', JArr [JStr ''cartId'']),
                                      (''message'',
                                       JStr ''The specified cart does not exist.'')]])])])]"

definition api_cart_user_error :: "request list \<Rightarrow> request \<Rightarrow> fetch_result" where
  "api_cart_user_error hist r = Response 200 (Some cart_user_error_response)"

definition begin_user_error_response :: jsval where
  "begin_user_error_response =
     JObj [(''data'',
            JObj [(''orderEditBegin'',
                   JObj [(''calculatedOrder'', JNull),
                         (''userErrors'',
                          JArr [JObj [(''field'', JArr [JStr ''id'']),
                                      (''message'',
                                       JStr ''The order cannot be edited.'')]])])])]"

definition api_begin_user_error :: "request list \<Rightarrow> request \<Rightarrow> fetch_result" where
  "api_begin_user_error hist r = Response 200 (Some begin_user_error_response)"

definition begin_no_token_response :: jsval where
  "begin_no_token_response =
     JObj [(''data'', JObj [(''orderEditBegin'', JObj [(''userErrors'', JArr [])])])]"

definition api_begin_no_token :: "request list \<Rightarrow> request \<Rightarrow> fetch_result" where
  "api_begin_no_token hist r = Response 200 (Some begin_no_token_response)"

text \<open>An API that accepts every call.\<close>

definition calculated_order_response :: jsval where
  "calculated_order_response =
     JObj [(''data'',
            JObj [(''orderEditBegin'',
                   JObj [(''calculatedOrder'',
                          JObj [(''id'', JStr ''gid://shopify/CalculatedOrder/1'')]),
                         (''userErrors'', JArr [])])])]"

definition calculated_line_item_response :: "string \<Rightarrow> jsval" where
  "calculated_line_item_response op =
     JObj [(''data'',
            JObj [(op,
                   JObj [(''calculatedLineItem'',
                          JObj [(''id'', JStr ''gid://shopify/CalculatedLineItem/2'')]),
                         (''userErrors'', JArr [])])])]"

definition committed_response :: jsval where
  "committed_response =
     JObj [(''data'',
            JObj [(''orderEditCommit'',
                   JObj [(''order'', JObj [(''id'', JStr ''gid://shopify/Order/7'')]),
                         (''userErrors'', JArr [])])])]"

definition api_accepts :: "request list \<Rightarrow> request \<Rightarrow> fetch_result" where
  "api_accepts hist r =
     (case req_call r of
        OrderEditBegin gid \<Rightarrow> Response 200 (Some calculated_order_response)
      | OrderEditAddVariant cid vid q \<Rightarrow>
          Response 200 (Some (calculated_line_item_response ''orderEditAddVariant''))
      | OrderEditAddLineItemDiscount d p cid lid \<Rightarrow>
          Response 200 (Some (calculated_line_item_response ''orderEditAddLineItemDiscount''))
      | OrderEditCommit cid notify note \<Rightarrow> Response 200 (Some committed_response)
      | CartLinesAdd cid mid q \<Rightarrow>
          Response 200
            (Some (JObj [(''data'',
                          JObj [(''cartLinesAdd'',
                                 JObj [(''cart'', JObj [(''id'', cid)]),
                                       (''userErrors'', JArr [])])])])))"

section \<open>Basic facts about the combinators\<close>

declare digits.simps [simp del]

lemma rbind_simps [simp]:
  "rbind (Inl e) f = Inl e"
  "rbind (Inr x) f = f x"
  by (simp_all add: rbind_def)

lemma io_return_apply [simp]: "io_return x t = (Inr x, t)"
  by (simp add: io_return_def)

lemma io_throw_apply [simp]: "io_throw e t = (Inl e, t)"
  by (simp add: io_throw_def)

lemma io_lift_apply [simp]: "io_lift r t = (r, t)"
  by (simp add: io_lift_def)

lemma respond_apply [simp]:
  "respond st b t = (Inr \<lparr> resp_status = st, resp_body = b \<rparr>, t)"
  by (simp add: respond_def)

lemma io_bind_lift_Inr [simp]: "io_bind (io_lift (Inr x)) f = f x"
  by (simp add: io_bind_def io_lift_def)

lemma io_bind_lift_Inl [simp]: "io_bind (io_lift (Inl e)) f = io_throw e"
  by (simp add: io_bind_def io_lift_def io_throw_def)

lemma io_bind_apply_Inr: "m t = (Inr x, t') \<Longrightarrow> io_bind m f t = f x t'"
  by (simp add: io_bind_def)

lemma io_bind_apply_Inl: "m t = (Inl e, t') \<Longrightarrow> io_bind m f t = (Inl e, t')"
  by (simp add: io_bind_def)

lemma io_catch_apply_Inr: "m t = (Inr x, t') \<Longrightarrow> io_catch m h t = (Inr x, t')"
  by (simp add: io_catch_def)

lemma io_catch_apply_Inl: "m t = (Inl e, t') \<Longrightarrow> io_catch m h t = h e t'"
  by (simp add: io_catch_def)

lemma graphql_post_trace: "snd (graphql_post w r t) = t @ [r]"
  by (simp add: graphql_post_def split: fetch_result.splits option.splits)

lemma graphql_post_ok:
  "fetch w t r = Response st (Some v) \<Longrightarrow> 200 \<le> st \<Longrightarrow> st < 300 \<Longrightarrow>
   graphql_post w r t = (Inr v, t @ [r])"
  by (simp add: graphql_post_def)

subsection \<open>Computations only append to the trace\<close>

lemma io_extends_return [simp]: "io_extends (io_return x)"
  by (simp add: io_extends_def)

lemma io_extends_throw [simp]: "io_extends (io_throw e)"
  by (simp add: io_extends_def)

lemma io_extends_lift [simp]: "io_extends (io_lift r)"
  by (simp add: io_extends_def)

lemma io_extends_post [simp]: "io_extends (graphql_post w r)"
  by (simp add: io_extends_def graphql_post_trace)

lemma io_extends_bind:
  assumes "io_extends m" and "\<And>x. io_extends (f x)"
  shows "io_extends (io_bind m f)"
  unfolding io_extends_def
proof
  fix t
  obtain r t' where mt: "m t = (r, t')" by (cases "m t")
  from assms(1) obtain e1 where e1: "t' = t @ e1"
    unfolding io_extends_def using mt by (metis snd_conv)
  show "\<exists>ext. snd (io_bind m f t) = t @ ext"
  proof (cases r)
    case (Inl e)
    then show ?thesis using mt e1 by (simp add: io_bind_def)
  next
    case (Inr x)
    from assms(2) [of x] obtain e2 where "snd (f x t') = t' @ e2"
      unfolding io_extends_def by blast
    then show ?thesis using mt e1 Inr by (simp add: io_bind_def)
  qed
qed

lemma io_extends_if:
  "io_extends m \<Longrightarrow> io_extends n \<Longrightarrow> io_extends (if b then m else n)"
  by simp

lemma order_edit_extends: "io_extends (order_edit w c g)"
  unfolding order_edit_def
  by (intro io_extends_bind io_extends_lift io_extends_post io_extends_return)

text \<open>A guarded block whose first effect is a request leaves that request first in
  the trace, whatever follows.\<close>

lemma first_request_of_guarded_block:
  assumes "\<And>x. io_extends (f x)"
  shows "\<exists>rest. snd (io_catch (io_bind (graphql_post w r) f) (\<lambda>e. io_return v) t)
                  = t @ r # rest"
proof -
  obtain res where p: "graphql_post w r t = (res, t @ [r])"
    using graphql_post_trace [of w r t] by (cases "graphql_post w r t") simp
  show ?thesis
  proof (cases res)
    case (Inl e)
    then show ?thesis using p by (simp add: io_catch_def io_bind_def)
  next
    case (Inr x)
    from assms [of x] obtain e2 where e2: "snd (f x (t @ [r])) = (t @ [r]) @ e2"
      unfolding io_extends_def by blast
    obtain y t2 where fx: "f x (t @ [r]) = (y, t2)" by (cases "f x (t @ [r])")
    with e2 have "t2 = t @ r # e2" by simp
    then show ?thesis
      using p Inr fx by (cases y) (simp_all add: io_catch_def io_bind_def)
  qed
qed

section \<open>Signature verification\<close>

lemma verify_bypass:
  "BYPASS_WEBHOOK_VERIFICATION c \<Longrightarrow> verifyShopifyWebhook w c body h = Inr True"
  by (simp add: verifyShopifyWebhook_def)

lemma verify_accepts_iff:
  assumes "\<not> BYPASS_WEBHOOK_VERIFICATION c" and "SHOPIFY_WEBHOOK_SECRET c \<noteq> []"
    and "expected_signature w c body \<noteq> []"
  shows "verifyShopifyWebhook w c body h = Inr True
         \<longleftrightarrow> h = Some (expected_signature w c body)"
  using assms
  by (auto simp: verifyShopifyWebhook_def timingSafeEqual_def split: option.splits)

lemma verify_same_length:
  assumes "\<not> BYPASS_WEBHOOK_VERIFICATION c" and "SHOPIFY_WEBHOOK_SECRET c \<noteq> []"
    and "length h = length (expected_signature w c body)" and "h \<noteq> []"
  shows "verifyShopifyWebhook w c body (Some h) = Inr (h = expected_signature w c body)"
  using assms by (auto simp: verifyShopifyWebhook_def timingSafeEqual_def)

lemma verify_length_mismatch:
  assumes "\<not> BYPASS_WEBHOOK_VERIFICATION c" and "SHOPIFY_WEBHOOK_SECRET c \<noteq> []"
    and "length h \<noteq> length (expected_signature w c body)" and "h \<noteq> []"
  shows "verifyShopifyWebhook w c body (Some h) = Inl RangeError"
  using assms by (auto simp: verifyShopifyWebhook_def timingSafeEqual_def)

text \<open>
  Claim C1. With the bypass enabled the verifier accepts every input. With the bypass
  disabled and a non-empty secret it accepts exactly the header that equals the
  base64 HMAC-SHA256 of the body; replacing one byte of that signature makes it
  return false, and so does replacing one byte of the body, provided the keyed hash
  tells the two bodies apart. The hash is the library's: what is assumed of it is
  that a digest is 44 characters long (32 bytes in base64).
\<close>

theorem verifyShopifyWebhook_accepts_iff_signature:
  assumes len: "\<forall>key text. length (hmac_sha256_base64 w key text) = 44"
  shows
   "(BYPASS_WEBHOOK_VERIFICATION c \<longrightarrow> verifyShopifyWebhook w c body h = Inr True) \<and>
    (\<not> BYPASS_WEBHOOK_VERIFICATION c \<and> SHOPIFY_WEBHOOK_SECRET c \<noteq> [] \<longrightarrow>
       (verifyShopifyWebhook w c body h = Inr True
          \<longleftrightarrow> h = Some (expected_signature w c body)) \<and>
       (\<forall>i b. i < length (expected_signature w c body)
                \<and> b \<noteq> expected_signature w c body ! i \<longrightarrow>
              verifyShopifyWebhook w c body
                (Some ((expected_signature w c body)[i := b])) = Inr False) \<and>
       (\<forall>i b. i < length body \<and> b \<noteq> body ! i \<and>
              expected_signature w c (body[i := b]) \<noteq> expected_signature w c body \<longrightarrow>
              verifyShopifyWebhook w c (body[i := b])
                (Some (expected_signature w c body)) = Inr False))"
proof -
  have ne: "expected_signature w c b \<noteq> []" for b
    using len by (metis length_0_conv zero_neq_numeral)
  have bypass:
    "BYPASS_WEBHOOK_VERIFICATION c \<Longrightarrow> verifyShopifyWebhook w c body h = Inr True"
    by (rule verify_bypass)
  {
    assume nb: "\<not> BYPASS_WEBHOOK_VERIFICATION c"
      and sec: "SHOPIFY_WEBHOOK_SECRET c \<noteq> []"
    have iff: "verifyShopifyWebhook w c body h = Inr True
               \<longleftrightarrow> h = Some (expected_signature w c body)"
      by (rule verify_accepts_iff [OF nb sec ne])
    have sig: "verifyShopifyWebhook w c body
                 (Some ((expected_signature w c body)[i := b])) = Inr False"
      if "i < length (expected_signature w c body)"
        and "b \<noteq> expected_signature w c body ! i" for i b
    proof -
      let ?d = "expected_signature w c body"
      have "?d[i := b] ! i = b" using that by simp
      then have neq: "?d[i := b] \<noteq> ?d" using that by metis
      have "?d[i := b] \<noteq> []" using ne [of body] by simp
      then show ?thesis
        using verify_same_length [OF nb sec, of "?d[i := b]" w body] neq by simp
    qed
    have bod: "verifyShopifyWebhook w c (body[i := b])
                 (Some (expected_signature w c body)) = Inr False"
      if "expected_signature w c (body[i := b]) \<noteq> expected_signature w c body" for i b
    proof -
      have "length (expected_signature w c body)
            = length (expected_signature w c (body[i := b]))"
        using len by simp
      then show ?thesis
        using verify_same_length
                [OF nb sec, of "expected_signature w c body" w "body[i := b]"]
          ne [of body] that by simp
    qed
    note iff sig bod
  }
  with bypass show ?thesis by blast
qed

lemmas demo_defs =
  demo_world_def demo_config_def demo_env_def load_config_def env_or_empty_def
  demo_hmac_def demo_parse_def cart_text_def cart_value_def cart_signature_def
  cart_text_mutated_def cart_signature_mutated_def order_text_def order_value_def
  order_signature_def

lemma demo_hmac_length: "length (demo_hmac key text) = 44"
  by (simp add: demo_hmac_def cart_signature_def cart_signature_mutated_def
      order_signature_def)

theorem verifyShopifyWebhook_accepts_iff_signature_witness:
  "verifyShopifyWebhook (demo_world api_unreachable) demo_config cart_text
     (Some cart_signature) = Inr True
   \<and> verifyShopifyWebhook (demo_world api_unreachable) demo_config cart_text
       (Some (cart_signature[0 := CHR ''Y''])) = Inr False
   \<and> verifyShopifyWebhook (demo_world api_unreachable) demo_config
       (cart_text[8 := CHR ''2'']) (Some cart_signature) = Inr False
   \<and> verifyShopifyWebhook (demo_world api_unreachable)
       (demo_config \<lparr> BYPASS_WEBHOOK_VERIFICATION := True \<rparr>) cart_text None = Inr True"
proof -
  let ?w = "demo_world api_unreachable"
  have len: "\<forall>key text. length (hmac_sha256_base64 ?w key text) = 44"
    by (simp add: demo_world_def demo_hmac_length)
  have mut: "cart_text[8 := CHR ''2''] = cart_text_mutated"
    by (simp add: cart_text_def cart_text_mutated_def)
  have cfg: "\<not> BYPASS_WEBHOOK_VERIFICATION demo_config"
    "SHOPIFY_WEBHOOK_SECRET demo_config = ''s3cret''"
    by (simp_all add: demo_defs)
  have sigs: "expected_signature ?w demo_config cart_text = cart_signature"
    "expected_signature ?w demo_config cart_text_mutated = cart_signature_mutated"
    by (simp_all add: demo_defs)
  from verifyShopifyWebhook_accepts_iff_signature
         [OF len, of demo_config cart_text "Some cart_signature"]
  have main: "(verifyShopifyWebhook ?w demo_config cart_text (Some cart_signature) = Inr True) \<and>
       (\<forall>i b. i < length cart_signature \<and> b \<noteq> cart_signature ! i \<longrightarrow>
              verifyShopifyWebhook ?w demo_config cart_text
                (Some (cart_signature[i := b])) = Inr False) \<and>
       (\<forall>i b. i < length cart_text \<and> b \<noteq> cart_text ! i \<and>
              expected_signature ?w demo_config (cart_text[i := b]) \<noteq> cart_signature \<longrightarrow>
              verifyShopifyWebhook ?w demo_config (cart_text[i := b])
                (Some cart_signature) = Inr False)"
    using cfg sigs by simp
  have a: "verifyShopifyWebhook ?w demo_config cart_text (Some cart_signature) = Inr True"
    using main by blast
  have "0 < length cart_signature \<and> CHR ''Y'' \<noteq> cart_signature ! 0"
    by (simp add: cart_signature_def)
  with main have b: "verifyShopifyWebhook ?w demo_config cart_text
       (Some (cart_signature[0 := CHR ''Y''])) = Inr False"
    by blast
  have "8 < length cart_text \<and> CHR ''2'' \<noteq> cart_text ! 8 \<and>
        expected_signature ?w demo_config (cart_text[8 := CHR ''2'']) \<noteq> cart_signature"
    unfolding mut sigs
    by (simp add: cart_text_def cart_signature_def cart_signature_mutated_def)
  with main have c: "verifyShopifyWebhook ?w demo_config (cart_text[8 := CHR ''2''])
       (Some cart_signature) = Inr False"
    by blast
  have d: "verifyShopifyWebhook ?w (demo_config \<lparr> BYPASS_WEBHOOK_VERIFICATION := True \<rparr>)
             cart_text None = Inr True"
    using verifyShopifyWebhook_accepts_iff_signature
            [OF len, of "demo_config \<lparr> BYPASS_WEBHOOK_VERIFICATION := True \<rparr>" cart_text None]
    by simp
  from a b c d show ?thesis by blast
qed

lemma js_falsy_iff [simp]: "js_falsy x \<longleftrightarrow> \<not> js_truthy x"
  by (simp add: js_falsy_def)

section \<open>The mutation functions\<close>

text \<open>
  Claim C9. When the access token or the target variant identifier is the empty
  string, \<^verbatim>\<open>addFreeItemToOrder\<close> and \<^verbatim>\<open>addHiddenProductToCart\<close> return \<^verbatim>\<open>null\<close>
  and leave the trace of outbound requests as it was.
\<close>

theorem missing_configuration_issues_no_request:
  "(SHOPIFY_ADMIN_API_KEY c = [] \<or> OG_VARIANT_ID c = [] \<longrightarrow>
      addFreeItemToOrder w c orderId t = (Inr JNull, t)) \<and>
   (SHOPIFY_STOREFRONT_ACCESS_TOKEN c = [] \<or> HIDDEN_VARIANT_ID c = [] \<longrightarrow>
      addHiddenProductToCart w c cartId t = (Inr JNull, t))"
  by (simp add: addFreeItemToOrder_def addHiddenProductToCart_def)

theorem missing_configuration_issues_no_request_witness:
  "addFreeItemToOrder (demo_world api_begin_user_error)
     (demo_config \<lparr> SHOPIFY_ADMIN_API_KEY := [] \<rparr>) (JNum 7) [] = (Inr JNull, [])
   \<and> addHiddenProductToCart (demo_world api_cart_user_error)
       (demo_config \<lparr> HIDDEN_VARIANT_ID := [] \<rparr>) (JStr ''c1'') [] = (Inr JNull, [])"
  using missing_configuration_issues_no_request
          [of "demo_config \<lparr> SHOPIFY_ADMIN_API_KEY := [] \<rparr>"
              "demo_world api_begin_user_error" "JNum 7" "[]"]
        missing_configuration_issues_no_request
          [of "demo_config \<lparr> HIDDEN_VARIANT_ID := [] \<rparr>"
              "demo_world api_cart_user_error" _ _ "JStr ''c1''"]
  by simp

text \<open>
  Claim C6, as the code has it. With the token and the variant configured,
  \<^verbatim>\<open>addHiddenProductToCart\<close> issues exactly one request and returns \<^verbatim>\<open>null\<close> when
  the fetch is rejected, the status is not 2xx or the body is not JSON; otherwise it
  returns the parsed body as it is, user errors included. It is the caller that
  inspects \<^verbatim>\<open>userErrors\<close>.
\<close>

theorem addHiddenProductToCart_returns_parsed_response:
  assumes "SHOPIFY_STOREFRONT_ACCESS_TOKEN c \<noteq> []" and "HIDDEN_VARIANT_ID c \<noteq> []"
  shows "addHiddenProductToCart w c cartId t =
           (Inr (case fetch w t (cart_lines_add_request c cartId) of
                   Rejected \<Rightarrow> JNull
                 | Response st js \<Rightarrow>
                     if 200 \<le> st \<and> st < 300
                     then (case js of None \<Rightarrow> JNull | Some v \<Rightarrow> v)
                     else JNull),
            t @ [cart_lines_add_request c cartId])"
  using assms
  by (simp add: addHiddenProductToCart_def io_catch_def graphql_post_def
      split: fetch_result.splits option.splits)

theorem addHiddenProductToCart_returns_parsed_response_witness:
  "addHiddenProductToCart (demo_world api_unreachable) demo_config (JStr ''c1'') []
     = (Inr JNull, [cart_lines_add_request demo_config (JStr ''c1'')])
   \<and> addHiddenProductToCart (demo_world api_cart_user_error) demo_config (JStr ''c1'') []
     = (Inr cart_user_error_response, [cart_lines_add_request demo_config (JStr ''c1'')])"
proof -
  have cfg: "SHOPIFY_STOREFRONT_ACCESS_TOKEN demo_config \<noteq> []"
    "HIDDEN_VARIANT_ID demo_config \<noteq> []"
    by (simp_all add: demo_defs)
  show ?thesis
    using addHiddenProductToCart_returns_parsed_response
            [OF cfg, of "demo_world api_unreachable" "JStr ''c1''" "[]"]
          addHiddenProductToCart_returns_parsed_response
            [OF cfg, of "demo_world api_cart_user_error" "JStr ''c1''" "[]"]
    by (simp add: demo_world_def api_unreachable_def api_cart_user_error_def)
qed

text \<open>
  The claim as the specification words it fails: a 200 response that carries a
  non-empty \<^verbatim>\<open>userErrors\<close> list (which the \<^verbatim>\<open>POST\<close> handler goes on to treat as a
  failure) is returned as it is, not as \<^verbatim>\<open>null\<close>.
\<close>

theorem addHiddenProductToCart_user_errors_counterexample:
  "fst (addHiddenProductToCart (demo_world api_cart_user_error) demo_config
          (JStr ''c1'') []) = Inr cart_user_error_response
   \<and> cart_user_error_response \<noteq> JNull
   \<and> nonempty_array (cart_userErrors cart_user_error_response)
   \<and> cart_add_failed (demo_world api_cart_user_error) cart_user_error_response = Inr True"
  by (simp add: addHiddenProductToCart_def io_catch_def graphql_post_def demo_defs
      api_cart_user_error_def cart_user_error_response_def cart_userErrors_def
      cart_add_failed_def)

section \<open>The order-edit transaction\<close>

lemma nonempty_array_gt0:
  "nonempty_array v \<Longrightarrow> js_truthy v \<and> js_gt0 f (js_prop v ''length'') = Inr True"
  by (cases v rule: nonempty_array.cases) simp_all

lemma api_errors_begin:
  assumes "begin_reports_errors r"
  shows "api_errors w ''orderEditBegin'' r = Inr True
         \<or> api_errors w ''orderEditBegin'' r = Inl TypeError"
  using assms nonempty_array_gt0
  by (auto simp: begin_reports_errors_def api_errors_def js_get_def Let_def)

lemma order_edit_begin_failure:
  assumes gid: "js_String g = Inr gid"
    and resp: "fetch w t (begin_request c gid) = Response st (Some r)"
      "200 \<le> st" "st < 300"
    and fail: "begin_reports_errors r \<or> begin_omits_token r"
  shows "\<exists>e. order_edit w c g t = (Inl e, t @ [begin_request c gid])"
proof -
  have post: "graphql_post w (begin_request c gid) t = (Inr r, t @ [begin_request c gid])"
    using resp by (rule graphql_post_ok)
  let ?check = "throw_if_api_errors w ''orderEditBegin'' ''Error beginning order edit'' r"
  consider (thrown) e where "?check = Inl e" | (passed) "?check = Inr ()"
    by (cases ?check) auto
  then show ?thesis
  proof cases
    case thrown
    then show ?thesis
      using gid post by (simp add: order_edit_def io_bind_def)
  next
    case passed
    then have "api_errors w ''orderEditBegin'' r = Inr False"
      by (cases "api_errors w ''orderEditBegin'' r")
         (auto simp: throw_if_api_errors_def split: if_splits)
    with api_errors_begin [of r w] have "\<not> begin_reports_errors r" by auto
    with fail have "begin_omits_token r" by simp
    then have "require_id ''orderEditBegin'' ''calculatedOrder''
                 ''No calculatedOrder ID returned from orderEditBegin mutation'' r
               = Inl (Error ''No calculatedOrder ID returned from orderEditBegin mutation'')"
      by (simp add: begin_omits_token_def require_id_def)
    then show ?thesis
      using gid post passed by (simp add: order_edit_def io_bind_def)
  qed
qed

lemma addFreeItemToOrder_begin_failure:
  assumes cfg: "SHOPIFY_ADMIN_API_KEY c \<noteq> []" "OG_VARIANT_ID c \<noteq> []"
    and gid: "orderGid_of orderId = Inr g" "js_String g = Inr gid"
    and resp: "fetch w t (begin_request c gid) = Response st (Some r)"
      "200 \<le> st" "st < 300"
    and fail: "begin_reports_errors r \<or> begin_omits_token r"
  shows "addFreeItemToOrder w c orderId t = (Inr JNull, t @ [begin_request c gid])"
proof -
  from order_edit_begin_failure [OF gid(2) resp fail]
  obtain e where "order_edit w c g t = (Inl e, t @ [begin_request c gid])" ..
  then show ?thesis
    using cfg gid(1) by (simp add: addFreeItemToOrder_def io_catch_def)
qed

lemma orderGid_of_String: "orderGid_of orderId = Inr g \<Longrightarrow> \<exists>s. js_String orderId = Inr s"
  by (cases "js_String orderId") (simp_all add: orderGid_of_def)

text \<open>What \<^verbatim>\<open>POST\<close> answers once the payload is verified, parsed and logged, the
  trigger condition holds and an order identifier is present: 500 when the mutation
  returns a falsy result.\<close>

lemma POST_order_after_mutation:
  assumes "verifyShopifyWebhook w c body h = Inr True"
    and "JSON_parse w body = Some order"
    and "log_order order = Inr ()"
    and "order_condition c order = Inr True"
    and "order_id order = Inr orderId" and "js_truthy orderId"
    and "js_String orderId = Inr s"
    and "addFreeItemToOrder w c orderId t = (Inr result, t')"
    and "js_falsy result"
  shows "POST_order w c \<lparr> request_text = Some body, hmac_header = h \<rparr> t =
           (Inr \<lparr> resp_status = 500,
                  resp_body = ErrorBody ''Failed to add free item to order''
                                (DetailsValue (error_details result)) \<rparr>, t')"
  using assms
  by (simp add: POST_order_def POST_order_try_def read_text_def parse_json_def
      io_bind_def io_catch_def)

text \<open>
  Claim C7. With the admin token and the variant configured, if the begin call is
  answered (status 2xx, JSON body) with top-level errors, with a non-empty
  \<^verbatim>\<open>userErrors\<close> list or without a \<^verbatim>\<open>calculatedOrder.id\<close>, then
  \<^verbatim>\<open>addFreeItemToOrder\<close> returns \<^verbatim>\<open>null\<close> having issued the begin request and no
  other, and a webhook that reached the mutation is answered with status 500.
\<close>

theorem begin_failure_aborts_with_500:
  assumes cfg: "SHOPIFY_ADMIN_API_KEY c \<noteq> []" "OG_VARIANT_ID c \<noteq> []"
    and gid: "orderGid_of orderId = Inr g" "js_String g = Inr gid"
    and resp: "fetch w t (begin_request c gid) = Response st (Some r)"
      "200 \<le> st" "st < 300"
    and fail: "begin_reports_errors r \<or> begin_omits_token r"
  shows "addFreeItemToOrder w c orderId t = (Inr JNull, t @ [begin_request c gid]) \<and>
         (verifyShopifyWebhook w c body h = Inr True \<and> JSON_parse w body = Some order
            \<and> log_order order = Inr () \<and> order_condition c order = Inr True
            \<and> order_id order = Inr orderId \<and> js_truthy orderId \<longrightarrow>
          POST_order w c \<lparr> request_text = Some body, hmac_header = h \<rparr> t =
            (Inr \<lparr> resp_status = 500,
                   resp_body = ErrorBody ''Failed to add free item to order''
                                 (DetailsValue (JStr ''Unknown error'')) \<rparr>,
             t @ [begin_request c gid]))"
proof -
  have add: "addFreeItemToOrder w c orderId t = (Inr JNull, t @ [begin_request c gid])"
    by (rule addFreeItemToOrder_begin_failure [OF cfg gid resp fail])
  obtain s where s: "js_String orderId = Inr s"
    using orderGid_of_String [OF gid(1)] ..
  have det: "error_details JNull = JStr ''Unknown error''"
    by (simp add: error_details_def js_opt_def)
  have "POST_order w c \<lparr> request_text = Some body, hmac_header = h \<rparr> t =
            (Inr \<lparr> resp_status = 500,
                   resp_body = ErrorBody ''Failed to add free item to order''
                                 (DetailsValue (JStr ''Unknown error'')) \<rparr>,
             t @ [begin_request c gid])"
    if "verifyShopifyWebhook w c body h = Inr True" "JSON_parse w body = Some order"
      "log_order order = Inr ()" "order_condition c order = Inr True"
      "order_id order = Inr orderId" "js_truthy orderId"
    using POST_order_after_mutation [OF that s add] det by simp
  with add show ?thesis by blast
qed

lemmas order_flow_defs =
  POST_order_def POST_order_try_def read_text_def verifyShopifyWebhook_def
  timingSafeEqual_def parse_json_def log_order_def js_get_def js_opt_def
  string_of_prop_def order_condition_def hasTriggerProduct_order_def hasOGPack_def
  prop_matches_def order_id_def orderGid_of_def is_digits_def
  decimal_def digits.simps digit_char_def

theorem begin_failure_aborts_with_500_witness:
  "POST_order (demo_world api_begin_user_error) demo_config
     \<lparr> request_text = Some order_text, hmac_header = Some order_signature \<rparr> [] =
     (Inr \<lparr> resp_status = 500,
            resp_body = ErrorBody ''Failed to add free item to order''
                          (DetailsValue (JStr ''Unknown error'')) \<rparr>,
      [begin_request demo_config ''gid://shopify/Order/7''])
   \<and> addFreeItemToOrder (demo_world api_begin_no_token) demo_config (JNum 7) [] =
       (Inr JNull, [begin_request demo_config ''gid://shopify/Order/7''])"
proof -
  have cfg: "SHOPIFY_ADMIN_API_KEY demo_config \<noteq> []" "OG_VARIANT_ID demo_config \<noteq> []"
    by (simp_all add: demo_defs)
  have gid: "orderGid_of (JNum 7) = Inr (JStr ''gid://shopify/Order/7'')"
    "js_String (JStr ''gid://shopify/Order/7'') = Inr ''gid://shopify/Order/7''"
    by (simp_all add: orderGid_of_def decimal_def digits.simps digit_char_def)
  have r1: "fetch (demo_world api_begin_user_error) []
              (begin_request demo_config ''gid://shopify/Order/7'')
            = Response 200 (Some begin_user_error_response)"
    "fetch (demo_world api_begin_no_token) []
              (begin_request demo_config ''gid://shopify/Order/7'')
            = Response 200 (Some begin_no_token_response)"
    by (simp_all add: demo_world_def api_begin_user_error_def api_begin_no_token_def)
  have f1: "begin_reports_errors begin_user_error_response
            \<or> begin_omits_token begin_user_error_response"
    by (simp add: begin_reports_errors_def begin_user_error_response_def js_opt_def)
  have f2: "begin_reports_errors begin_no_token_response
            \<or> begin_omits_token begin_no_token_response"
    by (simp add: begin_omits_token_def begin_no_token_response_def returned_id_def
        js_opt_def)
  have pre: "verifyShopifyWebhook (demo_world api_begin_user_error) demo_config order_text
               (Some order_signature) = Inr True
             \<and> JSON_parse (demo_world api_begin_user_error) order_text = Some order_value
             \<and> log_order order_value = Inr ()
             \<and> order_condition demo_config order_value = Inr True
             \<and> order_id order_value = Inr (JNum 7) \<and> js_truthy (JNum 7)"
    by (simp add: demo_defs order_flow_defs)
  from begin_failure_aborts_with_500
         [OF cfg gid r1(1) _ _ f1, of order_text "Some order_signature" order_value] pre
  have a: "POST_order (demo_world api_begin_user_error) demo_config
     \<lparr> request_text = Some order_text, hmac_header = Some order_signature \<rparr> [] =
     (Inr \<lparr> resp_status = 500,
            resp_body = ErrorBody ''Failed to add free item to order''
                          (DetailsValue (JStr ''Unknown error'')) \<rparr>,
      [begin_request demo_config ''gid://shopify/Order/7''])"
    by simp
  from begin_failure_aborts_with_500 [OF cfg gid r1(2) _ _ f2]
  have b: "addFreeItemToOrder (demo_world api_begin_no_token) demo_config (JNum 7) [] =
       (Inr JNull, [begin_request demo_config ''gid://shopify/Order/7''])"
    by simp
  from a b show ?thesis ..
qed

lemma order_edit_first_request:
  assumes "js_String g = Inr gid"
  shows "\<exists>rest. snd (io_catch (order_edit w c g) (\<lambda>e. io_return v) t)
                  = t @ begin_request c gid # rest"
  unfolding order_edit_def using assms
  by (simp del: io_return_apply)
     (rule first_request_of_guarded_block,
      intro io_extends_bind io_extends_lift io_extends_post io_extends_return)

lemma addFreeItemToOrder_first_request:
  assumes "SHOPIFY_ADMIN_API_KEY c \<noteq> []" and "OG_VARIANT_ID c \<noteq> []"
    and "orderGid_of orderId = Inr g" and "js_String g = Inr gid"
  shows "\<exists>rest. snd (addFreeItemToOrder w c orderId t) = t @ begin_request c gid # rest"
  using assms order_edit_first_request [of g gid w c JNull t]
  by (simp add: addFreeItemToOrder_def del: io_return_apply)

lemma gid_is_not_digits: "take 6 s = ''gid://'' \<Longrightarrow> \<not> is_digits s"
proof
  assume a: "take 6 s = ''gid://''" and d: "is_digits s"
  from a have "s \<noteq> []" by auto
  then obtain ch cs where s: "s = ch # cs" by (cases s) auto
  with a have "ch = CHR ''g''" by simp
  with d s show False by (simp add: is_digits_def)
qed

text \<open>
  Claim C8. With the admin token and the variant configured, the first request
  \<^verbatim>\<open>addFreeItemToOrder\<close> issues is the begin call, and the identifier it carries is
  \<^verbatim>\<open>gid://shopify/Order/<id>\<close> for a number and for a non-empty string of decimal
  digits, and the identifier itself for a string that starts with \<^verbatim>\<open>gid://\<close>.
\<close>

theorem order_identifier_translated_to_gid:
  assumes cfg: "SHOPIFY_ADMIN_API_KEY c \<noteq> []" "OG_VARIANT_ID c \<noteq> []"
  shows
   "(orderGid_of (JNum n) = Inr (JStr (''gid://shopify/Order/'' @ decimal n)) \<and>
     (\<exists>rest. snd (addFreeItemToOrder w c (JNum n) t)
               = t @ begin_request c (''gid://shopify/Order/'' @ decimal n) # rest)) \<and>
    (is_digits s \<longrightarrow>
       orderGid_of (JStr s) = Inr (JStr (''gid://shopify/Order/'' @ s)) \<and>
       (\<exists>rest. snd (addFreeItemToOrder w c (JStr s) t)
                 = t @ begin_request c (''gid://shopify/Order/'' @ s) # rest)) \<and>
    (take 6 s = ''gid://'' \<longrightarrow>
       orderGid_of (JStr s) = Inr (JStr s) \<and>
       (\<exists>rest. snd (addFreeItemToOrder w c (JStr s) t) = t @ begin_request c s # rest))"
proof -
  have num: "orderGid_of (JNum n) = Inr (JStr (''gid://shopify/Order/'' @ decimal n))"
    by (simp add: orderGid_of_def)
  have dig: "orderGid_of (JStr s) = Inr (JStr (''gid://shopify/Order/'' @ s))"
    if "is_digits s"
    using that by (simp add: orderGid_of_def)
  have gid: "orderGid_of (JStr s) = Inr (JStr s)" if "take 6 s = ''gid://''"
    using gid_is_not_digits [OF that] by (simp add: orderGid_of_def)
  show ?thesis
    using num dig gid
      addFreeItemToOrder_first_request [OF cfg, of "JNum n" _ _ w t]
      addFreeItemToOrder_first_request [OF cfg, of "JStr s" _ _ w t]
    by simp
qed

theorem order_identifier_translated_to_gid_witness:
  "(\<exists>rest. snd (addFreeItemToOrder (demo_world api_unreachable) demo_config
                  (JNum 5380452647120) [])
             = begin_request demo_config ''gid://shopify/Order/5380452647120'' # rest)
   \<and> (\<exists>rest. snd (addFreeItemToOrder (demo_world api_unreachable) demo_config
                  (JStr ''5380452647120'') [])
             = begin_request demo_config ''gid://shopify/Order/5380452647120'' # rest)
   \<and> (\<exists>rest. snd (addFreeItemToOrder (demo_world api_unreachable) demo_config
                  (JStr ''gid://shopify/Order/5380452647120'') [])
             = begin_request demo_config ''gid://shopify/Order/5380452647120'' # rest)"
proof -
  have cfg: "SHOPIFY_ADMIN_API_KEY demo_config \<noteq> []" "OG_VARIANT_ID demo_config \<noteq> []"
    by (simp_all add: demo_defs)
  have dec: "decimal 5380452647120 = ''5380452647120''"
    by (simp add: decimal_def digits.simps digit_char_def)
  have dig: "is_digits ''5380452647120''"
    by (simp add: is_digits_def)
  show ?thesis
    using order_identifier_translated_to_gid
            [OF cfg, of 5380452647120 "demo_world api_unreachable" "[]" "''5380452647120''"]
          order_identifier_translated_to_gid
            [OF cfg, of 0 "demo_world api_unreachable" "[]"
               "''gid://shopify/Order/5380452647120''"]
          dec dig
    by simp
qed

section \<open>The handlers always answer\<close>

lemma responds_documented_respond:
  "documented_status st \<Longrightarrow> responds_documented (respond st b)"
  by (simp add: responds_documented_def)

lemma responds_documented_bind:
  assumes "\<And>x. responds_documented (f x)"
  shows "responds_documented (io_bind m f)"
  unfolding responds_documented_def
proof (intro allI impI)
  fix t r t'
  assume run: "io_bind m f t = (Inr r, t')"
  obtain y t1 where mt: "m t = (y, t1)" by (cases "m t")
  show "documented_status (resp_status r)"
  proof (cases y)
    case (Inl e)
    with mt run show ?thesis by (simp add: io_bind_def)
  next
    case (Inr x)
    with mt run have "f x t1 = (Inr r, t')" by (simp add: io_bind_def)
    with assms [of x] show ?thesis unfolding responds_documented_def by blast
  qed
qed

lemma responds_documented_if:
  "responds_documented m \<Longrightarrow> responds_documented n
   \<Longrightarrow> responds_documented (if b then m else n)"
  by simp

lemma POST_cart_try_documented: "responds_documented (POST_cart_try w c rq)"
  unfolding POST_cart_try_def
  by (intro responds_documented_bind responds_documented_if responds_documented_respond)
     (simp_all add: documented_status_def)

lemma POST_order_try_documented: "responds_documented (POST_order_try w c rq)"
  unfolding POST_order_try_def
  by (intro responds_documented_bind responds_documented_if responds_documented_respond)
     (simp_all add: documented_status_def)

lemma caught_handler_responds:
  assumes "responds_documented m"
  shows "\<exists>r t'. io_catch m (\<lambda>error. respond 500 (b error)) t = (Inr r, t')
                 \<and> resp_status r \<in> {200, 400, 401, 500}"
proof -
  obtain y t1 where mt: "m t = (y, t1)" by (cases "m t")
  show ?thesis
  proof (cases y)
    case (Inl e)
    with mt show ?thesis by (simp add: io_catch_def)
  next
    case (Inr r)
    with mt assms have "documented_status (resp_status r)"
      unfolding responds_documented_def by blast
    with mt Inr show ?thesis by (auto simp: io_catch_def documented_status_def)
  qed
qed

text \<open>
  Claim C10. Whatever the request, the configuration, the parser and the remote API
  do, each \<^verbatim>\<open>POST\<close> handler returns a response (no error leaves its \<^verbatim>\<open>try\<close>
  block uncaught) and the status is 200, 400, 401 or 500.
\<close>

theorem POST_always_responds_with_documented_status:
  "(\<exists>r t'. POST_cart w c rq t = (Inr r, t') \<and> resp_status r \<in> {200, 400, 401, 500}) \<and>
   (\<exists>r t'. POST_order w c rq t = (Inr r, t') \<and> resp_status r \<in> {200, 400, 401, 500})"
proof -
  let ?b = "\<lambda>error. ErrorBody ''Error processing webhook'' (DetailsError error)"
  have cart: "responds_documented (POST_cart_try w c rq)"
    by (rule POST_cart_try_documented)
  have order: "responds_documented (POST_order_try w c rq)"
    by (rule POST_order_try_documented)
  show ?thesis
    unfolding POST_cart_def POST_order_def
    using caught_handler_responds [OF cart, where b = ?b and t = t]
          caught_handler_responds [OF order, where b = ?b and t = t]
    by simp
qed

section \<open>Rejected signatures\<close>

lemma rejected_signature_answers_401:
  assumes "verifyShopifyWebhook w c body h = Inr False"
  shows "POST_cart w c \<lparr> request_text = Some body, hmac_header = h \<rparr> t =
           (Inr \<lparr> resp_status = 401,
                  resp_body = ErrorBody ''Invalid webhook signature'' NoDetails \<rparr>, t)"
    and "POST_order w c \<lparr> request_text = Some body, hmac_header = h \<rparr> t =
           (Inr \<lparr> resp_status = 401,
                  resp_body = ErrorBody ''Invalid webhook signature'' NoDetails \<rparr>, t)"
  using assms
  by (simp_all add: POST_cart_def POST_cart_try_def POST_order_def POST_order_try_def
      read_text_def io_catch_def)

text \<open>
  Claim C4, where the code departs from it. With the bypass disabled and a secret
  configured, a non-empty signature header whose length differs from the digest's
  makes \<^verbatim>\<open>crypto.timingSafeEqual\<close> throw; the handler's \<^verbatim>\<open>catch\<close> answers 500, not
  401. No request is issued.
\<close>

theorem signature_length_mismatch_answers_500:
  assumes "\<not> BYPASS_WEBHOOK_VERIFICATION c" and "SHOPIFY_WEBHOOK_SECRET c \<noteq> []"
    and "h \<noteq> []" and "length h \<noteq> length (expected_signature w c body)"
  shows "POST_cart w c \<lparr> request_text = Some body, hmac_header = Some h \<rparr> t =
           (Inr \<lparr> resp_status = 500,
                  resp_body = ErrorBody ''Error processing webhook''
                                (DetailsError RangeError) \<rparr>, t)
         \<and> POST_order w c \<lparr> request_text = Some body, hmac_header = Some h \<rparr> t =
           (Inr \<lparr> resp_status = 500,
                  resp_body = ErrorBody ''Error processing webhook''
                                (DetailsError RangeError) \<rparr>, t)"
  using verify_length_mismatch [OF assms(1,2,4,3)]
  by (simp add: POST_cart_def POST_cart_try_def POST_order_def POST_order_try_def
      read_text_def io_catch_def)

theorem signature_length_mismatch_answers_500_witness:
  "POST_cart (demo_world api_unreachable) demo_config
     \<lparr> request_text = Some cart_text, hmac_header = Some ''not-the-signature'' \<rparr> [] =
     (Inr \<lparr> resp_status = 500,
            resp_body = ErrorBody ''Error processing webhook''
                          (DetailsError RangeError) \<rparr>, [])
   \<and> POST_order (demo_world api_unreachable) demo_config
     \<lparr> request_text = Some cart_text, hmac_header = Some ''not-the-signature'' \<rparr> [] =
     (Inr \<lparr> resp_status = 500,
            resp_body = ErrorBody ''Error processing webhook''
                          (DetailsError RangeError) \<rparr>, [])"
proof -
  have pre: "\<not> BYPASS_WEBHOOK_VERIFICATION demo_config"
    "SHOPIFY_WEBHOOK_SECRET demo_config \<noteq> []"
    "''not-the-signature'' \<noteq> []"
    "length ''not-the-signature''
       \<noteq> length (expected_signature (demo_world api_unreachable) demo_config cart_text)"
    by (simp_all add: demo_defs)
  show ?thesis
    by (rule signature_length_mismatch_answers_500 [OF pre])
qed

section \<open>The cart flow after a failed mutation\<close>

text \<open>
  Claim C2, where the code departs from it. In the cart flow, a verified webhook that
  meets the trigger condition and carries a cart identifier is answered 200 with
  \<^verbatim>\<open>success: true\<close> when the mutation returns \<^verbatim>\<open>null\<close>: the test before the
  500 response requires a truthy result with user errors. The mutation returns
  \<^verbatim>\<open>null\<close> when the token or the variant is missing, when the fetch is rejected and
  when the status is not 2xx.
\<close>

theorem POST_cart_acknowledges_failed_mutation:
  assumes "verifyShopifyWebhook w c body h = Inr True"
    and "JSON_parse w body = Some cart"
    and "cart_condition c cart = Inr True"
    and "cart_id cart = Inr cartId" and "js_truthy cartId"
    and "SHOPIFY_STOREFRONT_ACCESS_TOKEN c = []
         \<or> fetch w t (cart_lines_add_request c cartId) = Rejected
         \<or> (fetch w t (cart_lines_add_request c cartId) = Response st js
             \<and> (st < 200 \<or> 300 \<le> st))"
  shows "fst (addHiddenProductToCart w c cartId t) = Inr JNull
         \<and> fst (POST_cart w c \<lparr> request_text = Some body, hmac_header = h \<rparr> t) =
             Inr \<lparr> resp_status = 200,
                   resp_body = SuccessBody ''Hidden product added to cart'' \<rparr>"
proof -
  obtain t' where add: "addHiddenProductToCart w c cartId t = (Inr JNull, t')"
    using assms(6)
    by (cases "SHOPIFY_STOREFRONT_ACCESS_TOKEN c = [] \<or> HIDDEN_VARIANT_ID c = []")
       (auto simp: addHiddenProductToCart_def io_catch_def graphql_post_def)
  have "cart_add_failed w JNull = Inr False"
    by (simp add: cart_add_failed_def)
  with add assms(1-5) show ?thesis
    by (simp add: POST_cart_def POST_cart_try_def read_text_def parse_json_def
        io_bind_def io_catch_def)
qed

lemmas cart_flow_defs =
  POST_cart_def POST_cart_try_def read_text_def verifyShopifyWebhook_def
  timingSafeEqual_def parse_json_def js_get_def js_opt_def string_of_prop_def
  cart_condition_def hasTriggerProduct_cart_def hasHiddenProduct_def cart_id_def

theorem POST_cart_acknowledges_failed_mutation_witness:
  "fst (POST_cart (demo_world api_unreachable) demo_config
          \<lparr> request_text = Some cart_text, hmac_header = Some cart_signature \<rparr> []) =
     Inr \<lparr> resp_status = 200,
           resp_body = SuccessBody ''Hidden product added to cart'' \<rparr>
   \<and> fst (POST_cart (demo_world api_unreachable)
            (demo_config \<lparr> SHOPIFY_STOREFRONT_ACCESS_TOKEN := [] \<rparr>)
          \<lparr> request_text = Some cart_text, hmac_header = Some cart_signature \<rparr> []) =
     Inr \<lparr> resp_status = 200,
           resp_body = SuccessBody ''Hidden product added to cart'' \<rparr>"
proof -
  let ?w = "demo_world api_unreachable"
  let ?c = "demo_config \<lparr> SHOPIFY_STOREFRONT_ACCESS_TOKEN := [] \<rparr>"
  have pre: "verifyShopifyWebhook ?w demo_config cart_text (Some cart_signature) = Inr True"
    "JSON_parse ?w cart_text = Some cart_value"
    "cart_condition demo_config cart_value = Inr True"
    "cart_id cart_value = Inr (JStr ''c1'')" "js_truthy (JStr ''c1'')"
    by (simp_all add: demo_defs cart_flow_defs)
  have pre': "verifyShopifyWebhook ?w ?c cart_text (Some cart_signature) = Inr True"
    "cart_condition ?c cart_value = Inr True"
    by (simp_all add: demo_defs cart_flow_defs)
  have down: "SHOPIFY_STOREFRONT_ACCESS_TOKEN demo_config = []
         \<or> fetch ?w [] (cart_lines_add_request demo_config (JStr ''c1'')) = Rejected
         \<or> (fetch ?w [] (cart_lines_add_request demo_config (JStr ''c1'')) = Response 503 None
             \<and> ((503::nat) < 200 \<or> (300::nat) \<le> 503))"
    by (simp add: demo_world_def api_unreachable_def)
  have unset: "SHOPIFY_STOREFRONT_ACCESS_TOKEN ?c = []
         \<or> fetch ?w [] (cart_lines_add_request ?c (JStr ''c1'')) = Rejected
         \<or> (fetch ?w [] (cart_lines_add_request ?c (JStr ''c1'')) = Response 503 None
             \<and> ((503::nat) < 200 \<or> (300::nat) \<le> 503))"
    by simp
  show ?thesis
    using POST_cart_acknowledges_failed_mutation [OF pre down]
          POST_cart_acknowledges_failed_mutation
            [OF pre'(1) pre(2) pre'(2) pre(4,5) unset]
    by simp
qed

text \<open>The order flow does answer 500 there: its handler tests \<^verbatim>\<open>!result\<close>.\<close>

lemma POST_order_unreachable_api_answers_500:
  "fst (POST_order (demo_world api_unreachable) demo_config
          \<lparr> request_text = Some order_text, hmac_header = Some order_signature \<rparr> []) =
     Inr \<lparr> resp_status = 500,
           resp_body = ErrorBody ''Failed to add free item to order''
                         (DetailsValue (JStr ''Unknown error'')) \<rparr>"
  by (simp add: demo_defs order_flow_defs addFreeItemToOrder_def order_edit_def
      graphql_post_def io_bind_def io_catch_def api_unreachable_def admin_request_def
      error_details_def)

section \<open>The trigger predicate\<close>

lemma split_comma_nonempty: "split_comma s \<noteq> []"
  by (induction s) (auto split: list.splits)

text \<open>The list read from the environment is never empty, so the length test of the
  trigger predicates never fires for a loaded configuration.\<close>

lemma load_config_trigger_list_nonempty: "TRIGGER_VARIANT_IDS (load_config env) \<noteq> []"
  by (simp add: load_config_def split_comma_nonempty)

text \<open>The part of claim C5 that holds: no trigger for an empty trigger list, and
  none for a cart whose items are absent or empty.\<close>

lemma hasTriggerProduct_cart_empty:
  "TRIGGER_VARIANT_IDS c = [] \<Longrightarrow> hasTriggerProduct_cart c cart = Inr False"
  "js_opt cart ''items'' = JUndefined \<Longrightarrow> hasTriggerProduct_cart c cart = Inr False"
  "js_opt cart ''items'' = JArr [] \<Longrightarrow> hasTriggerProduct_cart c cart = Inr False"
  by (simp_all add: hasTriggerProduct_cart_def)

lemma hasTriggerProduct_order_empty:
  "TRIGGER_VARIANT_IDS c = [] \<Longrightarrow> js_nullish order = False
     \<Longrightarrow> hasTriggerProduct_order c order = Inr False"
  "js_get order ''line_items'' = Inr JUndefined \<Longrightarrow> hasTriggerProduct_order c order = Inr False"
  "js_get order ''line_items'' = Inr (JArr []) \<Longrightarrow> hasTriggerProduct_order c order = Inr False"
  by (simp_all add: hasTriggerProduct_order_def js_get_def)

text \<open>
  Claim C5, where the code departs from it. When \<^verbatim>\<open>TRIGGER_VARIANT_IDS\<close> is unset
  or empty, \<^verbatim>\<open>''.split(',')\<close> is the one-element list of the empty string, not the
  empty list, and the cart predicate returns true for a cart with a line item whose
  variant identifier is the empty string.
\<close>

theorem unset_trigger_list_matches_empty_identifier:
  assumes "env ''TRIGGER_VARIANT_IDS'' = None \<or> env ''TRIGGER_VARIANT_IDS'' = Some []"
  shows "TRIGGER_VARIANT_IDS (load_config env) = [[]] \<and>
         hasTriggerProduct_cart (load_config env)
           (JObj [(''id'', JStr ''c1''),
                  (''items'', JArr [JObj [(''variant_id'', JStr []),
                                         (''quantity'', JNum 1)]])]) = Inr True"
  using assms
  by (auto simp: load_config_def env_or_empty_def hasTriggerProduct_cart_def js_opt_def
      string_of_prop_def js_get_def)

theorem unset_trigger_list_matches_empty_identifier_witness:
  "hasTriggerProduct_cart (load_config Map.empty)
     (JObj [(''id'', JStr ''c1''),
            (''items'', JArr [JObj [(''variant_id'', JStr []), (''quantity'', JNum 1)]])])
     = Inr True
   \<and> hasTriggerProduct_cart (load_config (demo_env(''TRIGGER_VARIANT_IDS'' \<mapsto> [])))
     (JObj [(''id'', JStr ''c1''),
            (''items'', JArr [JObj [(''variant_id'', JStr []), (''quantity'', JNum 1)]])])
     = Inr True"
  using unset_trigger_list_matches_empty_identifier [of Map.empty]
        unset_trigger_list_matches_empty_identifier
          [of "demo_env(''TRIGGER_VARIANT_IDS'' \<mapsto> [])"]
  by simp

section \<open>The presence predicate of the order flow\<close>

lemma js_some_total:
  "list_all (\<lambda>x. f x = Inr (P x)) xs \<Longrightarrow> js_some f xs = Inr (list_ex P xs)"
  by (induction xs) auto

lemma identifier_String: "is_identifier v \<Longrightarrow> \<exists>s. js_String v = Inr s"
  by (cases v) simp_all

lemma prop_matches_identifier:
  assumes "js_nullish item = False" and "is_identifier (js_prop item p)"
  shows "prop_matches item p (\<lambda>s. s = target) = Inr (truthy_equals (js_prop item p) target)"
  using assms identifier_String [OF assms(2)]
  by (auto simp: prop_matches_def js_get_def truthy_equals_def)

lemma decimal_zero: "decimal 0 = ''0''"
  by (simp add: decimal_def digits.simps digit_char_def)

text \<open>For a target other than the empty string and \<^verbatim>\<open>0\<close>, the truthiness guard
  of the code changes nothing on identifiers.\<close>

lemma truthy_equals_identifier:
  assumes "is_identifier v" and "target \<noteq> []" and "target \<noteq> ''0''"
  shows "truthy_equals v target = identifier_equals v target"
  using assms decimal_zero
  by (cases v) (auto simp: truthy_equals_def identifier_equals_def)

lemma hasOGPack_items:
  assumes "OG_VARIANT_ID c \<noteq> []" and "js_prop order ''line_items'' = JArr items"
    and "list_all line_item_ok items"
  shows "hasOGPack c order =
           Inr (list_ex (\<lambda>item. truthy_equals (js_prop item ''product_id'') (OG_VARIANT_ID c)
                               \<or> truthy_equals (js_prop item ''variant_id'') (OG_VARIANT_ID c))
                  items)"
proof -
  have nn: "js_nullish order = False"
    using assms(2) by (cases order) auto
  let ?f = "\<lambda>item.
              rbind (prop_matches item ''product_id'' (\<lambda>s. s = OG_VARIANT_ID c))
                (\<lambda>byProduct.
                   if byProduct then Inr True
                   else prop_matches item ''variant_id'' (\<lambda>s. s = OG_VARIANT_ID c))"
  let ?P = "\<lambda>item. truthy_equals (js_prop item ''product_id'') (OG_VARIANT_ID c)
                    \<or> truthy_equals (js_prop item ''variant_id'') (OG_VARIANT_ID c)"
  have "list_all (\<lambda>x. ?f x = Inr (?P x)) items"
    using assms(3)
    by (induction items) (auto simp: line_item_ok_def prop_matches_identifier)
  then have "js_some ?f items = Inr (list_ex ?P items)"
    by (rule js_some_total)
  then show ?thesis
    using assms(1,2) nn by (simp add: hasOGPack_def js_get_def)
qed

text \<open>
  Claim C3, as the code has it. For a target identifier other than the empty string
  and \<^verbatim>\<open>0\<close>, and an order whose line items are an array of items typed as the
  \<^verbatim>\<open>LineItem\<close> interface declares, \<^verbatim>\<open>hasOGPack\<close> returns true exactly when some
  line item's variant-level or product-level identifier, as a string, equals the
  target. Either field alone suffices.
\<close>

theorem hasOGPack_iff_some_identifier_equals:
  assumes "OG_VARIANT_ID c \<noteq> []" and "OG_VARIANT_ID c \<noteq> ''0''"
    and "js_prop order ''line_items'' = JArr items"
    and "list_all line_item_ok items"
  shows "hasOGPack c order = Inr (spec_has_target (OG_VARIANT_ID c) items)"
proof -
  have "list_ex (\<lambda>item. truthy_equals (js_prop item ''product_id'') (OG_VARIANT_ID c)
                       \<or> truthy_equals (js_prop item ''variant_id'') (OG_VARIANT_ID c)) items
        = spec_has_target (OG_VARIANT_ID c) items"
    using assms(4)
    by (induction items)
       (auto simp: spec_has_target_def line_item_ok_def
           truthy_equals_identifier [OF _ assms(1,2)])
  with hasOGPack_items [OF assms(1,3,4)] show ?thesis by simp
qed

theorem hasOGPack_iff_some_identifier_equals_witness:
  "hasOGPack demo_config
     (JObj [(''id'', JNum 7),
            (''line_items'',
             JArr [JObj [(''variant_id'', JStr ''OG1''), (''product_id'', JNum 9)]])])
     = Inr True
   \<and> hasOGPack demo_config
     (JObj [(''id'', JNum 7),
            (''line_items'',
             JArr [JObj [(''variant_id'', JNum 11), (''product_id'', JStr ''OG1'')]])])
     = Inr True
   \<and> hasOGPack demo_config order_value = Inr False"
proof -
  have cfg: "OG_VARIANT_ID demo_config \<noteq> []" "OG_VARIANT_ID demo_config \<noteq> ''0''"
    by (simp_all add: demo_defs)
  let ?a = "[JObj [(''variant_id'', JStr ''OG1''), (''product_id'', JNum 9)]]"
  let ?b = "[JObj [(''variant_id'', JNum 11), (''product_id'', JStr ''OG1'')]]"
  let ?d = "[JObj [(''variant_id'', JNum 11), (''product_id'', JStr ''P1''),
                   (''quantity'', JNum 1)]]"
  have ok: "list_all line_item_ok ?a" "list_all line_item_ok ?b" "list_all line_item_ok ?d"
    by (simp_all add: line_item_ok_def)
  have og: "OG_VARIANT_ID demo_config = ''OG1''"
    by (simp add: demo_defs)
  have sp: "spec_has_target ''OG1'' ?a" "spec_has_target ''OG1'' ?b"
    "\<not> spec_has_target ''OG1'' ?d"
    by (simp_all add: spec_has_target_def identifier_equals_def decimal_def digits.simps
        digit_char_def)
  show ?thesis
    using hasOGPack_iff_some_identifier_equals
            [OF cfg, of "JObj [(''id'', JNum 7), (''line_items'', JArr ?a)]" ?a]
          hasOGPack_iff_some_identifier_equals
            [OF cfg, of "JObj [(''id'', JNum 7), (''line_items'', JArr ?b)]" ?b]
          hasOGPack_iff_some_identifier_equals [OF cfg, of order_value ?d]
          ok sp og
    by (simp add: order_value_def)
qed

text \<open>
  The claim as the specification words it fails where the guards of the code bite:
  a line item whose variant identifier is the number 0 string-equals the target
  \<^verbatim>\<open>0\<close>, and one whose variant identifier is the empty string equals an unset
  target, yet \<^verbatim>\<open>hasOGPack\<close> returns false for both.
\<close>

theorem hasOGPack_falsy_identifier_counterexample:
  "spec_has_target ''0'' [JObj [(''variant_id'', JNum 0), (''product_id'', JNum 5)]]
   \<and> hasOGPack (demo_config \<lparr> OG_VARIANT_ID := ''0'' \<rparr>)
       (JObj [(''id'', JNum 7),
              (''line_items'',
               JArr [JObj [(''variant_id'', JNum 0), (''product_id'', JNum 5)]])])
     = Inr False
   \<and> spec_has_target [] [JObj [(''variant_id'', JStr []), (''product_id'', JNum 5)]]
   \<and> hasOGPack (demo_config \<lparr> OG_VARIANT_ID := [] \<rparr>)
       (JObj [(''id'', JNum 7),
              (''line_items'',
               JArr [JObj [(''variant_id'', JStr []), (''product_id'', JNum 5)]])])
     = Inr False"
  by (simp add: spec_has_target_def identifier_equals_def hasOGPack_def js_get_def
      prop_matches_def decimal_def digits.simps digit_char_def)

text \<open>The older \<^verbatim>\<open>hasOGPack\<close> of the same file does not look at the variant
  identifier at all.\<close>

lemma hasOGPack_legacy_ignores_variant_id:
  "hasOGPack_legacy demo_config
     (JObj [(''id'', JNum 7),
            (''line_items'',
             JArr [JObj [(''variant_id'', JStr ''OG1''), (''product_id'', JNum 9)]])])
     = Inr False"
  by (simp add: demo_defs hasOGPack_legacy_def js_get_def string_of_prop_def decimal_def
      digits.simps digit_char_def)

section \<open>The order identifier in the test endpoint\<close>

text \<open>The variant of the test route agrees on identifiers in \<^verbatim>\<open>gid://\<close> form and on
  numeric ones; it differs on the number 0, which it takes for a missing identifier.\<close>

lemma orderGid_of_order_gid:
  assumes "js_prop order ''admin_graphql_api_id'' = JStr s" and "take 6 s = ''gid://''"
  shows "orderGid_of_order order = Inr (JStr s)"
proof -
  have nn: "js_nullish order = False" using assms(1) by (cases order) auto
  have "s \<noteq> []" using assms(2) by auto
  then show ?thesis
    using assms nn by (simp add: orderGid_of_order_def js_get_def)
qed

lemma orderGid_of_order_number:
  assumes "js_prop order ''admin_graphql_api_id'' = JUndefined"
    and "js_prop order ''id'' = JNum n" and "n \<noteq> 0"
  shows "orderGid_of_order order = Inr (JStr (''gid://shopify/Order/'' @ decimal n))"
proof -
  have nn: "js_nullish order = False" using assms(2) by (cases order) auto
  show ?thesis
    using assms nn by (simp add: orderGid_of_order_def js_get_def)
qed

lemma orderGid_of_order_digits:
  assumes "js_prop order ''admin_graphql_api_id'' = JUndefined"
    and "js_prop order ''id'' = JStr d" and "is_digits d"
  shows "orderGid_of_order order = Inr (JStr (''gid://shopify/Order/'' @ d))"
proof -
  have nn: "js_nullish order = False" using assms(2) by (cases order) auto
  have "d \<noteq> []" using assms(3) by (simp add: is_digits_def)
  then show ?thesis
    using assms nn by (simp add: orderGid_of_order_def js_get_def)
qed

section \<open>End-to-end runs\<close>

text \<open>With an API that accepts every call, the order flow issues begin, add variant,
  discount and commit in this order and answers 200; the cart flow issues its one
  mutation and answers 200.\<close>

lemma POST_order_happy_path:
  "POST_order (demo_world api_accepts) demo_config
     \<lparr> request_text = Some order_text, hmac_header = Some order_signature \<rparr> [] =
     (Inr \<lparr> resp_status = 200, resp_body = SuccessBody ''Free item added to order'' \<rparr>,
      [begin_request demo_config ''gid://shopify/Order/7'',
       admin_request demo_config
         (OrderEditAddVariant ''gid://shopify/CalculatedOrder/1''
            ''gid://shopify/ProductVariant/OG1'' 1),
       admin_request demo_config
         (OrderEditAddLineItemDiscount ''Free promotional item'' 100
            ''gid://shopify/CalculatedOrder/1'' ''gid://shopify/CalculatedLineItem/2''),
       admin_request demo_config
         (OrderEditCommit ''gid://shopify/CalculatedOrder/1'' False
            ''Added free promotional item'')])"
  by (simp add: demo_defs order_flow_defs addFreeItemToOrder_def order_edit_def
      graphql_post_def io_bind_def io_catch_def api_accepts_def admin_request_def
      throw_if_api_errors_def api_errors_def require_id_def returned_id_def variantGid_def
      calculated_order_response_def calculated_line_item_response_def
      committed_response_def)

lemma POST_cart_happy_path:
  "POST_cart (demo_world api_accepts) demo_config
     \<lparr> request_text = Some cart_text, hmac_header = Some cart_signature \<rparr> [] =
     (Inr \<lparr> resp_status = 200, resp_body = SuccessBody ''Hidden product added to cart'' \<rparr>,
      [cart_lines_add_request demo_config (JStr ''c1'')])"
  by (simp add: demo_defs cart_flow_defs addHiddenProductToCart_def
      graphql_post_def io_bind_def io_catch_def api_accepts_def storefront_request_def
      cart_add_failed_def cart_userErrors_def)

end
